theory Spec2Isabelle
  imports Main "HOL-Library.Word" "HOL-Library.Signed_Division"
begin

unbundle bit_operations_syntax

section \<open>The Z80 sound drivers of SGDK (sound.c)\<close>

text \<open>
  The 68000 talks to the Z80 through bytes of the Z80 address space. A byte address is a
  natural number (the pointer arithmetic of sound.c adds small offsets to a base address and
  never wraps), a byte is an 8 bit word, \<open>u16\<close> and \<open>u32\<close> are the types of types.h.
  The 32 bit \<open>int\<close> of the compiler, to which every \<open>u8\<close> and \<open>u16\<close> operand is promoted,
  is a 32 bit word as well.
\<close>

type_synonym u8 = "8 word"
type_synonym u16 = "16 word"
type_synonym u32 = "32 word"
type_synonym address = nat

datatype driver =
    Z80_DRIVER_PCM
  | Z80_DRIVER_2ADPCM
  | Z80_DRIVER_4PCM
  | Z80_DRIVER_4PCM_ENV
  | Z80_DRIVER_MVS
  | Z80_DRIVER_TFM

text \<open>
  sound.c includes config.h, types.h, sound.h, z80_ctrl.h, smp_null.h and smp_null_pcm.h,
  none of which is among the sources. Whatever sound.c takes from them is a field of the
  record \<open>config\<close>: the addresses of the command byte, of the status bytes and of the
  parameters, the bit macros, the automatic channel selector, the MVS opcodes, the address
  and \<open>sizeof\<close> of the two null samples, and what uploading a driver does to the Z80 memory.
\<close>

record config =
  Z80_DRV_COMMAND :: address
  Z80_DRV_STATUS :: address
  Z80_DRV_PARAMS :: address
  Z80_DRV_COM_PLAY :: u32
  Z80_DRV_STAT_PLAYING :: u32
  Z80_DRV_STAT_PLAYING_SFT :: nat
  SOUND_PCM_CH_AUTO :: u32
  SOUND_MVS_SILENCE :: u32
  SOUND_MVS_LOOP :: u32
  SOUND_MVS_ONCE :: u32
  smp_null :: u32
  sizeof_smp_null :: u32
  smp_null_pcm :: u32
  sizeof_smp_null_pcm :: u32
  upload :: "driver \<Rightarrow> (address \<Rightarrow> u8) \<Rightarrow> (address \<Rightarrow> u8)"

text \<open>
  Every call of a function of z80_ctrl.h and every access to a \<open>vu8\<close> pointer is an event;
  the state keeps the memory the bus shows, the driver the Z80 runs and the events so far.
\<close>

datatype event =
    LoadDriver driver u16
  | RequestBus u16
  | ReleaseBus
  | BusRead address
  | BusWrite address u8
  | StartReset
  | EndReset

record z80 =
  mem :: "address \<Rightarrow> u8"
  currentDriver :: "driver option"
  trace :: "event list"

text \<open>
  Modelled from the spec: \<open>Z80_loadDriver\<close> (z80_ctrl.c is missing). The loader is
  idempotent and switches the firmware only when the loaded variant differs (sections 4.3
  and 6); what the new firmware leaves in the Z80 memory is \<open>upload\<close>.
\<close>

definition Z80_loadDriver :: "config \<Rightarrow> driver \<Rightarrow> u16 \<Rightarrow> z80 \<Rightarrow> z80" where
  "Z80_loadDriver h d waitReady s =
     (if currentDriver s = Some d
      then s\<lparr>trace := trace s @ [LoadDriver d waitReady]\<rparr>
      else s\<lparr>mem := upload h d (mem s), currentDriver := Some d,
             trace := trace s @ [LoadDriver d waitReady]\<rparr>)"

text \<open>
  Modelled from the spec: \<open>Z80_requestBus\<close>, \<open>Z80_releaseBus\<close>, \<open>Z80_startReset\<close> and
  \<open>Z80_endReset\<close> (z80_ctrl.c is missing). The bus is acquired and released and the
  co-processor is reset (section 6); the calls are recorded in the trace and leave the
  memory alone.
\<close>

definition Z80_requestBus :: "u16 \<Rightarrow> z80 \<Rightarrow> z80" where
  "Z80_requestBus w s = s\<lparr>trace := trace s @ [RequestBus w]\<rparr>"

definition Z80_releaseBus :: "z80 \<Rightarrow> z80" where
  "Z80_releaseBus s = s\<lparr>trace := trace s @ [ReleaseBus]\<rparr>"

definition Z80_startReset :: "z80 \<Rightarrow> z80" where
  "Z80_startReset s = s\<lparr>trace := trace s @ [StartReset]\<rparr>"

definition Z80_endReset :: "z80 \<Rightarrow> z80" where
  "Z80_endReset s = s\<lparr>trace := trace s @ [EndReset]\<rparr>"

text \<open>Reading \<open>*pb\<close> and writing \<open>*pb = v\<close> through a \<open>vu8\<close> pointer.\<close>

definition bus_read :: "address \<Rightarrow> z80 \<Rightarrow> u8 \<times> z80" where
  "bus_read a s = (mem s a, s\<lparr>trace := trace s @ [BusRead a]\<rparr>)"

definition bus_write :: "address \<Rightarrow> u8 \<Rightarrow> z80 \<Rightarrow> z80" where
  "bus_write a v s = s\<lparr>mem := (mem s)(a := v), trace := trace s @ [BusWrite a v]\<rparr>"

text \<open>
  The integer promotion of a \<open>u8\<close> or \<open>u16\<close> operand, and the conversion of an \<open>int\<close> or
  \<open>u32\<close> to the \<open>u8\<close> it is stored in.
\<close>

definition promote8 :: "u8 \<Rightarrow> u32" where
  "promote8 v = ucast v"

definition promote16 :: "u16 \<Rightarrow> u32" where
  "promote16 v = ucast v"

definition to_u8 :: "u32 \<Rightarrow> u8" where
  "to_u8 v = ucast v"

text \<open>\<open>*pb |= x\<close> and \<open>*pb &= ~x\<close>: one read and one write of the same byte.\<close>

definition bus_or :: "address \<Rightarrow> u32 \<Rightarrow> z80 \<Rightarrow> z80" where
  "bus_or a x s = (let (v, s1) = bus_read a s in bus_write a (to_u8 (promote8 v OR x)) s1)"

definition bus_and_not :: "address \<Rightarrow> u32 \<Rightarrow> z80 \<Rightarrow> z80" where
  "bus_and_not a x s =
     (let (v, s1) = bus_read a s in bus_write a (to_u8 (promote8 v AND NOT x)) s1)"

subsection \<open>Z80_DRIVER_PCM\<close>

definition SND_isPlaying_PCM :: "config \<Rightarrow> z80 \<Rightarrow> u8 \<times> z80" where
  "SND_isPlaying_PCM h s0 =
     (let s1 = Z80_loadDriver h Z80_DRIVER_PCM 1 s0;
          s2 = Z80_requestBus 1 s1;
          pb = Z80_DRV_STATUS h;
          (v, s3) = bus_read pb s2;
          ret = to_u8 (promote8 v AND Z80_DRV_STAT_PLAYING h);
          s4 = Z80_releaseBus s3
      in (ret, s4))"

definition SND_startPlay_PCM :: "config \<Rightarrow> u32 \<Rightarrow> u32 \<Rightarrow> u8 \<Rightarrow> u8 \<Rightarrow> u8 \<Rightarrow> z80 \<Rightarrow> z80" where
  "SND_startPlay_PCM h sample len rate pan loop s0 =
     (let s1 = Z80_loadDriver h Z80_DRIVER_PCM 1 s0;
          s2 = Z80_requestBus 1 s1;
          pb = Z80_DRV_PARAMS h;
          addr = sample;
          s3 = bus_write (pb + 0) (to_u8 (drop_bit 8 addr)) s2;
          s4 = bus_write (pb + 1) (to_u8 (drop_bit 16 addr)) s3;
          s5 = bus_write (pb + 2) (to_u8 (drop_bit 8 len)) s4;
          s6 = bus_write (pb + 3) (to_u8 (drop_bit 16 len)) s5;
          s7 = bus_write (pb + 4) rate s6;
          s8 = bus_write (pb + 6) pan s7;
          pb = Z80_DRV_COMMAND h;
          s9 = bus_or pb (Z80_DRV_COM_PLAY h) s8;
          pb = Z80_DRV_STATUS h;
          s10 = (if loop \<noteq> 0 then bus_or (pb + 1) (Z80_DRV_STAT_PLAYING h) s9
                 else bus_and_not (pb + 1) (Z80_DRV_STAT_PLAYING h) s9)
      in Z80_releaseBus s10)"

definition SND_stopPlay_PCM :: "config \<Rightarrow> z80 \<Rightarrow> z80" where
  "SND_stopPlay_PCM h s0 =
     (let s1 = Z80_loadDriver h Z80_DRIVER_PCM 1 s0;
          s2 = Z80_requestBus 1 s1;
          pb = Z80_DRV_PARAMS h + 0x10;
          addr = smp_null h;
          s3 = bus_write (pb + 0) (to_u8 (drop_bit 8 addr)) s2;
          s4 = bus_write (pb + 1) (to_u8 (drop_bit 16 addr)) s3;
          s5 = bus_write (pb + 2) (to_u8 (drop_bit 8 (sizeof_smp_null h))) s4;
          s6 = bus_write (pb + 3) (to_u8 (drop_bit 16 (sizeof_smp_null h))) s5;
          pb = Z80_DRV_STATUS h;
          s7 = bus_and_not (pb + 0) (Z80_DRV_STAT_PLAYING h) s6;
          s8 = bus_and_not (pb + 1) (Z80_DRV_STAT_PLAYING h) s7
      in Z80_releaseBus s8)"

subsection \<open>Z80_DRIVER_2ADPCM, Z80_DRIVER_4PCM and Z80_DRIVER_4PCM_ENV\<close>

text \<open>
  The three drivers with several channels have the same three functions, word for word, up
  to the driver they load, the number \<open>n\<close> of channels they scan (2, 4, 4), the boundary
  shift \<open>sft\<close> (7, 8, 8) and the null sample they stop on. The bodies are written once, with
  these as arguments. A channel is a \<open>u16\<close>; the shifts by a channel number are those
  of C for the channels below 32, and the properties below are about the channels a driver
  has.

  The scan for a free channel:
  \<^verbatim>\<open>ch = 0; while ((ch < n) && (status & (Z80_DRV_STAT_PLAYING << ch))) ch++;\<close>
\<close>

function scan_free :: "config \<Rightarrow> u16 \<Rightarrow> u8 \<Rightarrow> u16 \<Rightarrow> u16" where
  "scan_free h n status ch =
     (if ch < n \<and> promote8 status AND push_bit (unat ch) (Z80_DRV_STAT_PLAYING h) \<noteq> 0
      then scan_free h n status (ch + 1)
      else ch)"
  by pat_completeness auto
termination
proof (relation "measure (\<lambda>(h, n, status, ch). unat n - unat ch)")
  show "wf (measure (\<lambda>(h, n, status, ch). unat n - unat ch))"
    by simp
next
  fix h :: config and n ch :: u16 and status :: u8
  assume "ch < n \<and> promote8 status AND push_bit (unat ch) (Z80_DRV_STAT_PLAYING h) \<noteq> 0"
  then have lt: "unat ch < unat n"
    by (simp add: word_less_nat_alt)
  have "unat n < 2 ^ 16"
    using unsigned_less [of n] by simp
  with lt have "unat ch + 1 < 2 ^ 16"
    by simp
  then have "unat (ch + 1) = unat ch + 1"
    by (simp add: unat_word_ariths)
  with lt show "((h, n, status, ch + 1), (h, n, status, ch))
      \<in> measure (\<lambda>(h, n, status, ch). unat n - unat ch)"
    by simp
qed

declare scan_free.simps [simp del]

text \<open>
  The channel a start request plays on:
  \<^verbatim>\<open>if (channel == SOUND_PCM_CH_AUTO) { (scan); if (ch == n) ch = 0; } else ch = channel;\<close>
\<close>

definition select_channel :: "config \<Rightarrow> u16 \<Rightarrow> u8 \<Rightarrow> u16 \<Rightarrow> u16" where
  "select_channel h n status channel =
     (if promote16 channel = SOUND_PCM_CH_AUTO h
      then (let ch = scan_free h n status 0 in if ch = n then 0 else ch)
      else channel)"

definition isPlaying_channels :: "config \<Rightarrow> driver \<Rightarrow> u16 \<Rightarrow> z80 \<Rightarrow> u8 \<times> z80" where
  "isPlaying_channels h drv channel_mask s0 =
     (let s1 = Z80_loadDriver h drv 1 s0;
          s2 = Z80_requestBus 1 s1;
          pb = Z80_DRV_STATUS h;
          (v, s3) = bus_read pb s2;
          ret = to_u8 (promote8 v
                  AND push_bit (Z80_DRV_STAT_PLAYING_SFT h) (promote16 channel_mask));
          s4 = Z80_releaseBus s3
      in (ret, s4))"

definition startPlay_channels ::
  "config \<Rightarrow> driver \<Rightarrow> u16 \<Rightarrow> nat \<Rightarrow> u32 \<Rightarrow> u32 \<Rightarrow> u16 \<Rightarrow> u8 \<Rightarrow> z80 \<Rightarrow> z80" where
  "startPlay_channels h drv n sft sample len channel loop s0 =
     (let s1 = Z80_loadDriver h drv 1 s0;
          s2 = Z80_requestBus 1 s1;
          pb = Z80_DRV_STATUS h;
          (status, s3) = bus_read pb s2;
          ch = select_channel h n status channel;
          pb = Z80_DRV_PARAMS h + unat ch * 4;
          addr = sample;
          s4 = bus_write (pb + 0) (to_u8 (drop_bit sft addr)) s3;
          s5 = bus_write (pb + 1) (to_u8 (drop_bit (sft + 8) addr)) s4;
          s6 = bus_write (pb + 2) (to_u8 (drop_bit sft len)) s5;
          s7 = bus_write (pb + 3) (to_u8 (drop_bit (sft + 8) len)) s6;
          pb = Z80_DRV_COMMAND h;
          s8 = bus_or pb (push_bit (unat ch) (Z80_DRV_COM_PLAY h)) s7;
          pb = Z80_DRV_STATUS h;
          s9 = (if loop \<noteq> 0
                then bus_or (pb + 1) (push_bit (unat ch) (Z80_DRV_STAT_PLAYING h)) s8
                else bus_and_not (pb + 1) (push_bit (unat ch) (Z80_DRV_STAT_PLAYING h)) s8)
      in Z80_releaseBus s9)"

definition stopPlay_channels ::
  "config \<Rightarrow> driver \<Rightarrow> nat \<Rightarrow> u32 \<Rightarrow> u32 \<Rightarrow> u16 \<Rightarrow> z80 \<Rightarrow> z80" where
  "stopPlay_channels h drv sft null_addr null_size channel s0 =
     (let s1 = Z80_loadDriver h drv 1 s0;
          s2 = Z80_requestBus 1 s1;
          pb = Z80_DRV_PARAMS h + 0x10 + unat channel * 4;
          addr = null_addr;
          s3 = bus_write (pb + 0) (to_u8 (drop_bit sft addr)) s2;
          s4 = bus_write (pb + 1) (to_u8 (drop_bit (sft + 8) addr)) s3;
          s5 = bus_write (pb + 2) (to_u8 (drop_bit sft null_size)) s4;
          s6 = bus_write (pb + 3) (to_u8 (drop_bit (sft + 8) null_size)) s5;
          pb = Z80_DRV_STATUS h;
          s7 = bus_and_not (pb + 0) (push_bit (unat channel) (Z80_DRV_STAT_PLAYING h)) s6;
          s8 = bus_and_not (pb + 1) (push_bit (unat channel) (Z80_DRV_STAT_PLAYING h)) s7
      in Z80_releaseBus s8)"

definition SND_isPlaying_2ADPCM :: "config \<Rightarrow> u16 \<Rightarrow> z80 \<Rightarrow> u8 \<times> z80" where
  "SND_isPlaying_2ADPCM h = isPlaying_channels h Z80_DRIVER_2ADPCM"

definition SND_startPlay_2ADPCM :: "config \<Rightarrow> u32 \<Rightarrow> u32 \<Rightarrow> u16 \<Rightarrow> u8 \<Rightarrow> z80 \<Rightarrow> z80" where
  "SND_startPlay_2ADPCM h = startPlay_channels h Z80_DRIVER_2ADPCM 2 7"

definition SND_stopPlay_2ADPCM :: "config \<Rightarrow> u16 \<Rightarrow> z80 \<Rightarrow> z80" where
  "SND_stopPlay_2ADPCM h =
     stopPlay_channels h Z80_DRIVER_2ADPCM 7 (smp_null_pcm h) (sizeof_smp_null_pcm h)"

definition SND_isPlaying_4PCM :: "config \<Rightarrow> u16 \<Rightarrow> z80 \<Rightarrow> u8 \<times> z80" where
  "SND_isPlaying_4PCM h = isPlaying_channels h Z80_DRIVER_4PCM"

definition SND_startPlay_4PCM :: "config \<Rightarrow> u32 \<Rightarrow> u32 \<Rightarrow> u16 \<Rightarrow> u8 \<Rightarrow> z80 \<Rightarrow> z80" where
  "SND_startPlay_4PCM h = startPlay_channels h Z80_DRIVER_4PCM 4 8"

definition SND_stopPlay_4PCM :: "config \<Rightarrow> u16 \<Rightarrow> z80 \<Rightarrow> z80" where
  "SND_stopPlay_4PCM h =
     stopPlay_channels h Z80_DRIVER_4PCM 8 (smp_null h) (sizeof_smp_null h)"

definition SND_isPlaying_4PCM_ENV :: "config \<Rightarrow> u16 \<Rightarrow> z80 \<Rightarrow> u8 \<times> z80" where
  "SND_isPlaying_4PCM_ENV h = isPlaying_channels h Z80_DRIVER_4PCM_ENV"

definition SND_startPlay_4PCM_ENV :: "config \<Rightarrow> u32 \<Rightarrow> u32 \<Rightarrow> u16 \<Rightarrow> u8 \<Rightarrow> z80 \<Rightarrow> z80" where
  "SND_startPlay_4PCM_ENV h = startPlay_channels h Z80_DRIVER_4PCM_ENV 4 8"

definition SND_stopPlay_4PCM_ENV :: "config \<Rightarrow> u16 \<Rightarrow> z80 \<Rightarrow> z80" where
  "SND_stopPlay_4PCM_ENV h =
     stopPlay_channels h Z80_DRIVER_4PCM_ENV 8 (smp_null h) (sizeof_smp_null h)"

definition SND_setVolume_4PCM_ENV :: "config \<Rightarrow> u16 \<Rightarrow> u8 \<Rightarrow> z80 \<Rightarrow> z80" where
  "SND_setVolume_4PCM_ENV h channel volume s0 =
     (let s1 = Z80_loadDriver h Z80_DRIVER_4PCM_ENV 1 s0;
          s2 = Z80_requestBus 1 s1;
          pb = Z80_DRV_PARAMS h + 0x20 + unat channel;
          s3 = bus_write pb (to_u8 (promote8 volume AND 0x0F)) s2
      in Z80_releaseBus s3)"

definition SND_getVolume_4PCM_ENV :: "config \<Rightarrow> u16 \<Rightarrow> z80 \<Rightarrow> u8 \<times> z80" where
  "SND_getVolume_4PCM_ENV h channel s0 =
     (let s1 = Z80_loadDriver h Z80_DRIVER_4PCM_ENV 1 s0;
          s2 = Z80_requestBus 1 s1;
          pb = Z80_DRV_PARAMS h + 0x20 + unat channel;
          (v, s3) = bus_read pb s2;
          volume = to_u8 (promote8 v AND 0x0F);
          s4 = Z80_releaseBus s3
      in (volume, s4))"

subsection \<open>Z80_DRIVER_MVS and Z80_DRIVER_TFM\<close>

definition SND_isPlaying_MVS :: "config \<Rightarrow> z80 \<Rightarrow> u8 \<times> z80" where
  "SND_isPlaying_MVS h s0 =
     (let s1 = Z80_loadDriver h Z80_DRIVER_MVS 0 s0;
          s2 = Z80_requestBus 1 s1;
          pb = 0xA0151D;
          (v, s3) = bus_read pb s2;
          ret = to_u8 (promote8 v AND 3);
          s4 = Z80_releaseBus s3
      in (ret, s4))"

definition SND_startPlay_MVS :: "config \<Rightarrow> u32 \<Rightarrow> u8 \<Rightarrow> z80 \<Rightarrow> z80" where
  "SND_startPlay_MVS h song loop s0 =
     (let s1 = Z80_loadDriver h Z80_DRIVER_MVS 0 s0;
          s2 = Z80_requestBus 1 s1;
          addr = song;
          pb = 0xA0151A;
          s3 = bus_write (pb + 0x00) (to_u8 (drop_bit 0 addr)) s2;
          s4 = bus_write (pb + 0x01) (to_u8 (drop_bit 8 addr)) s3;
          s5 = bus_write (pb + 0x02) (to_u8 (drop_bit 16 addr)) s4;
          s6 = (if loop \<noteq> 0 then bus_write (pb + 0x03) (to_u8 (SOUND_MVS_LOOP h)) s5
                else bus_write (pb + 0x03) (to_u8 (SOUND_MVS_ONCE h)) s5)
      in Z80_releaseBus s6)"

definition SND_stopPlay_MVS :: "config \<Rightarrow> z80 \<Rightarrow> z80" where
  "SND_stopPlay_MVS h s0 =
     (let s1 = Z80_loadDriver h Z80_DRIVER_MVS 0 s0;
          s2 = Z80_requestBus 1 s1;
          pb = 0xA0151D;
          s3 = bus_write pb (to_u8 (SOUND_MVS_SILENCE h)) s2
      in Z80_releaseBus s3)"

definition SND_startPlay_TFM :: "config \<Rightarrow> u32 \<Rightarrow> z80 \<Rightarrow> z80" where
  "SND_startPlay_TFM h song s0 =
     (let s1 = Z80_requestBus 1 s0;
          addr = song;
          pb = 0xA01FFC;
          s2 = bus_write (pb + 0x00) (to_u8 (drop_bit 0 addr)) s1;
          s3 = bus_write (pb + 0x01) (to_u8 (drop_bit 8 addr)) s2;
          s4 = bus_write (pb + 0x02) (to_u8 (drop_bit 16 addr)) s3;
          s5 = bus_write (pb + 0x00) (to_u8 (drop_bit 24 addr)) s4;
          s6 = Z80_releaseBus s5;
          s7 = Z80_loadDriver h Z80_DRIVER_TFM 0 s6;
          s8 = Z80_startReset s7
      in Z80_endReset s8)"

subsection \<open>What the register window shows\<close>

text \<open>
  The test sound.c makes on a status byte, \<open>status & (Z80_DRV_STAT_PLAYING << ch)\<close>: the
  play bit of a channel is this test on the first status byte, its loop bit the same test on
  the second one. The command bit of a channel is what \<open>Z80_DRV_COM_PLAY << ch\<close> leaves
  in the command byte.
\<close>

definition busy :: "config \<Rightarrow> u8 \<Rightarrow> nat \<Rightarrow> bool" where
  "busy h status c \<longleftrightarrow> promote8 status AND push_bit c (Z80_DRV_STAT_PLAYING h) \<noteq> 0"

definition play_bit :: "config \<Rightarrow> (address \<Rightarrow> u8) \<Rightarrow> nat \<Rightarrow> bool" where
  "play_bit h m c = busy h (m (Z80_DRV_STATUS h)) c"

definition loop_bit :: "config \<Rightarrow> (address \<Rightarrow> u8) \<Rightarrow> nat \<Rightarrow> bool" where
  "loop_bit h m c = busy h (m (Z80_DRV_STATUS h + 1)) c"

definition command_bit :: "config \<Rightarrow> nat \<Rightarrow> u8" where
  "command_bit h c = to_u8 (push_bit c (Z80_DRV_COM_PLAY h))"

text \<open>
  The memory a function finds once the driver it asks for is loaded, the events a call adds
  to the trace, and the bytes a list of events writes to one address.
\<close>

definition found :: "config \<Rightarrow> driver \<Rightarrow> z80 \<Rightarrow> address \<Rightarrow> u8" where
  "found h drv s = mem (Z80_loadDriver h drv 1 s)"

definition new_events :: "z80 \<Rightarrow> z80 \<Rightarrow> event list" where
  "new_events s s' = drop (length (trace s)) (trace s')"

fun written :: "address \<Rightarrow> event list \<Rightarrow> u8 list" where
  "written a [] = []"
| "written a (BusWrite b v # es) = (if a = b then v # written a es else written a es)"
| "written a (e # es) = written a es"

text \<open>
  The channel a start request of an \<open>n\<close> channel driver plays on: the status byte is the
  one the function reads after loading its driver.
\<close>

definition played_channel :: "config \<Rightarrow> driver \<Rightarrow> u16 \<Rightarrow> u16 \<Rightarrow> z80 \<Rightarrow> nat" where
  "played_channel h drv n channel s =
     unat (select_channel h n (found h drv s (Z80_DRV_STATUS h)) channel)"

text \<open>
  A request names the automatic selector or one of the \<open>n\<close> channels of the driver.
\<close>

definition requests :: "config \<Rightarrow> u16 \<Rightarrow> u16 \<Rightarrow> bool" where
  "requests h n channel \<longleftrightarrow> promote16 channel = SOUND_PCM_CH_AUTO h \<or> channel < n"

text \<open>
  The command byte, the two status bytes and the \<open>0x24\<close> bytes of parameters (four per
  channel, four more per channel for the stop sample from \<open>0x10\<close>, the volumes from
  \<open>0x20\<close>) are different bytes.
\<close>

definition window_ok :: "config \<Rightarrow> bool" where
  "window_ok h \<longleftrightarrow>
     Z80_DRV_COMMAND h \<noteq> Z80_DRV_STATUS h \<and>
     Z80_DRV_COMMAND h \<noteq> Z80_DRV_STATUS h + 1 \<and>
     (Z80_DRV_COMMAND h < Z80_DRV_PARAMS h \<or> Z80_DRV_PARAMS h + 0x24 \<le> Z80_DRV_COMMAND h) \<and>
     (Z80_DRV_STATUS h + 1 < Z80_DRV_PARAMS h \<or> Z80_DRV_PARAMS h + 0x24 \<le> Z80_DRV_STATUS h)"

text \<open>
  The encoding rule of section 4.1 of the specification, in its words: byte 0 is
  \<open>(A >> s) & 0xFF\<close>, byte 1 is \<open>(A >> (s+8)) & 0xFF\<close>, byte 2 and byte 3 the same for the
  length. Decoding puts the low and the high byte of a pair together again.
\<close>

definition encodes :: "(address \<Rightarrow> u8) \<Rightarrow> address \<Rightarrow> nat \<Rightarrow> u32 \<Rightarrow> u32 \<Rightarrow> bool" where
  "encodes m pb s A L \<longleftrightarrow>
     m pb = ucast (drop_bit s A AND 0xFF) \<and>
     m (pb + 1) = ucast (drop_bit (s + 8) A AND 0xFF) \<and>
     m (pb + 2) = ucast (drop_bit s L AND 0xFF) \<and>
     m (pb + 3) = ucast (drop_bit (s + 8) L AND 0xFF)"

definition decode16 :: "u8 \<Rightarrow> u8 \<Rightarrow> u32" where
  "decode16 lo hi = ucast lo OR push_bit 8 (ucast hi)"

text \<open>
  The round trip of section 8: the block holds the encoding, and decoding a pair of bytes
  gives the shifted value back whenever that value fits in 16 bits.
\<close>

definition round_trip :: "(address \<Rightarrow> u8) \<Rightarrow> address \<Rightarrow> nat \<Rightarrow> u32 \<Rightarrow> u32 \<Rightarrow> bool" where
  "round_trip m pb s A L \<longleftrightarrow>
     encodes m pb s A L \<and>
     (drop_bit s A < 2 ^ 16 \<longrightarrow> decode16 (m pb) (m (pb + 1)) = drop_bit s A) \<and>
     (drop_bit s L < 2 ^ 16 \<longrightarrow> decode16 (m (pb + 2)) (m (pb + 3)) = drop_bit s L)"

text \<open>
  A command byte that went from \<open>m\<close> to \<open>m'\<close> by an OR with the command bit of channel
  \<open>c\<close>: every bit that was set is still set.
\<close>

definition keeps_command_bits ::
  "config \<Rightarrow> (address \<Rightarrow> u8) \<Rightarrow> (address \<Rightarrow> u8) \<Rightarrow> nat \<Rightarrow> bool" where
  "keeps_command_bits h m m' c \<longleftrightarrow>
     m' (Z80_DRV_COMMAND h) = m (Z80_DRV_COMMAND h) OR command_bit h c \<and>
     (\<forall>k. bit (m (Z80_DRV_COMMAND h)) k \<longrightarrow> bit (m' (Z80_DRV_COMMAND h)) k)"

text \<open>
  What a start request on channel \<open>c\<close> does between the state \<open>s\<close> before and the state
  \<open>s'\<close> after, \<open>m\<close> being the memory it found: the first status byte, where the play bits
  are, is as it was; the command byte has bit \<open>c\<close> ORed in, by the one write to the command
  byte that the call makes.
\<close>

definition pulses :: "config \<Rightarrow> (address \<Rightarrow> u8) \<Rightarrow> z80 \<Rightarrow> z80 \<Rightarrow> nat \<Rightarrow> bool" where
  "pulses h m s s' c \<longleftrightarrow>
     mem s' (Z80_DRV_STATUS h) = m (Z80_DRV_STATUS h) \<and>
     (\<forall>k. play_bit h (mem s') k = play_bit h m k) \<and>
     mem s' (Z80_DRV_COMMAND h) = m (Z80_DRV_COMMAND h) OR push_bit c 1 \<and>
     written (Z80_DRV_COMMAND h) (new_events s s') = [m (Z80_DRV_COMMAND h) OR push_bit c 1]"

text \<open>
  What a stop request on channel \<open>c\<close> leaves, \<open>s\<close> being the state before, \<open>s'\<close> the state
  after and \<open>m\<close> the memory the request found: the play bit and the loop bit of the channel
  are clear, the stop parameters of the channel (four bytes from \<open>0x10\<close>) encode the null
  sample, and the command byte is as it was, no event of the call being a write to it.
\<close>

definition stopped ::
  "config \<Rightarrow> (address \<Rightarrow> u8) \<Rightarrow> z80 \<Rightarrow> z80 \<Rightarrow> nat \<Rightarrow> nat \<Rightarrow> u32 \<Rightarrow> u32 \<Rightarrow> bool" where
  "stopped h m s s' c sft null_addr null_size \<longleftrightarrow>
     \<not> play_bit h (mem s') c \<and>
     \<not> loop_bit h (mem s') c \<and>
     encodes (mem s') (Z80_DRV_PARAMS h + 0x10 + c * 4) sft null_addr null_size \<and>
     written (Z80_DRV_COMMAND h) (new_events s s') = [] \<and>
     mem s' (Z80_DRV_COMMAND h) = m (Z80_DRV_COMMAND h)"

text \<open>
  A channel \<open>c\<close> that a request left alone, from the memory \<open>m\<close> to the memory \<open>m'\<close>: its
  play bit, its loop bit, its four parameter bytes, its four stop parameter bytes and its
  volume byte are as they were.
\<close>

definition untouched :: "config \<Rightarrow> (address \<Rightarrow> u8) \<Rightarrow> (address \<Rightarrow> u8) \<Rightarrow> nat \<Rightarrow> bool" where
  "untouched h m m' c \<longleftrightarrow>
     play_bit h m' c = play_bit h m c \<and>
     loop_bit h m' c = loop_bit h m c \<and>
     (\<forall>k<4. m' (Z80_DRV_PARAMS h + c * 4 + k) = m (Z80_DRV_PARAMS h + c * 4 + k) \<and>
            m' (Z80_DRV_PARAMS h + 0x10 + c * 4 + k) = m (Z80_DRV_PARAMS h + 0x10 + c * 4 + k)) \<and>
     m' (Z80_DRV_PARAMS h + 0x20 + c) = m (Z80_DRV_PARAMS h + 0x20 + c)"

text \<open>
  The allocator of section 4.2 of the specification, in its words: the first of the slots
  \<open>0..n-1\<close> that is not busy, slot 0 when all are.
\<close>

definition first_free :: "(nat \<Rightarrow> bool) \<Rightarrow> nat \<Rightarrow> nat" where
  "first_free b n = (case find (\<lambda>c. \<not> b c) [0..<n] of Some c \<Rightarrow> c | None \<Rightarrow> 0)"

text \<open>
  What the allocator promises: a slot below \<open>n\<close>; slot 0 when all are busy, else a slot
  that is not busy with only busy slots below it.
\<close>

definition lowest_free :: "(nat \<Rightarrow> bool) \<Rightarrow> nat \<Rightarrow> nat \<Rightarrow> bool" where
  "lowest_free b n c \<longleftrightarrow>
     c < n \<and> (if \<forall>k<n. b k then c = 0 else \<not> b c \<and> (\<forall>j<c. b j))"

text \<open>
  The protocol of section 4.3 of the specification: the driver is loaded, the bus is
  requested, the registers are read and written, the bus is released, and nothing else
  happens.
\<close>

fun is_access :: "event \<Rightarrow> bool" where
  "is_access (BusRead a) = True"
| "is_access (BusWrite a v) = True"
| "is_access e = False"

fun follows_protocol :: "driver \<Rightarrow> event list \<Rightarrow> bool" where
  "follows_protocol d (LoadDriver d' w # RequestBus r # e # es) =
     (d' = d \<and> last (e # es) = ReleaseBus \<and> list_all is_access (butlast (e # es)))"
| "follows_protocol d es = False"

text \<open>
  A configuration and a state to run the functions on: the window at \<open>0xA00100\<close>, one bit
  per channel from bit 0, a selector that is no channel number, the MVS opcodes of the
  comment in \<open>SND_isPlaying_MVS\<close>, null samples on their boundaries, an upload that clears
  the memory; the state has the four channel driver loaded and channels 0 and 2 playing.
\<close>

definition cfg0 :: config where
  "cfg0 = \<lparr>Z80_DRV_COMMAND = 0xA00100, Z80_DRV_STATUS = 0xA00102, Z80_DRV_PARAMS = 0xA00104,
           Z80_DRV_COM_PLAY = 1, Z80_DRV_STAT_PLAYING = 1, Z80_DRV_STAT_PLAYING_SFT = 0,
           SOUND_PCM_CH_AUTO = 0xFF,
           SOUND_MVS_SILENCE = 0, SOUND_MVS_LOOP = 1, SOUND_MVS_ONCE = 2,
           smp_null = 0x1200, sizeof_smp_null = 0x100,
           smp_null_pcm = 0x1380, sizeof_smp_null_pcm = 0x80,
           upload = (\<lambda>d m a. 0)\<rparr>"

definition st0 :: "driver \<Rightarrow> z80" where
  "st0 d = \<lparr>mem = (\<lambda>a. 0)(0xA00100 := 0x04, 0xA00102 := 0x05, 0xA00103 := 0x04),
            currentDriver = Some d, trace = []\<rparr>"

section \<open>Preparing samples (SoundUtil.java)\<close>

text \<open>
  A Java \<open>int\<close> is an integer kept in 32 bits, two's complement; \<open>/\<close> truncates.
  \<open>AudioFormat\<close> takes its two rates as \<open>float\<close>; the record keeps the \<open>int\<close> the
  source passes, and the rate of the input format is the \<open>int\<close> the source casts it to.
\<close>

definition jint :: "int \<Rightarrow> int" where
  "jint x = signed_take_bit 31 x"

datatype encoding = PCM_SIGNED | PCM_UNSIGNED

record audio_format =
  enc :: encoding
  sampleRate :: int
  sampleSizeInBits :: int
  channels :: int
  frameSize :: int
  frameRate :: int
  bigEndian :: bool

datatype jerror = UnsupportedAudioFileException | IOException | IndexOutOfBoundsException

text \<open>
  What one call of \<open>read(result, off, 256)\<close> on a stream does: it delivers bytes (at most
  256 are taken; none means the call returns 0), or it throws. A stream is its format, the
  calls to come (a call on a stream that has none left returns -1) and whether its
  \<open>close()\<close>, which is declared to throw \<open>IOException\<close> as \<open>read\<close> is, throws.
\<close>

datatype read_outcome = Delivers "u8 list" | Fails

record audio_stream =
  format :: audio_format
  pending :: "read_outcome list"
  close_throws :: bool

text \<open>
  \<open>javax.sound.sampled.AudioSystem\<close> is a parameter: opening a file throws or gives a
  stream, a conversion is supported or not, and a supported conversion gives a stream.
\<close>

record audio_system =
  getAudioInputStream :: "string \<Rightarrow> jerror + audio_stream"
  isConversionSupported :: "audio_format \<Rightarrow> audio_format \<Rightarrow> bool"
  getConvertedStream :: "audio_format \<Rightarrow> audio_stream \<Rightarrow> audio_stream"



definition resample ::
  "audio_system \<Rightarrow> audio_stream \<Rightarrow> int \<Rightarrow> int \<Rightarrow> bool \<Rightarrow> bool \<Rightarrow> bool \<Rightarrow> audio_stream option" where
  "resample sys audioIn bits rate mono' signed' bigEndian' =
     (let audioInputFormat = format audioIn;
          channel = (if mono' then 1 else channels audioInputFormat);
          adjRate = (if rate \<le> 0 then sampleRate audioInputFormat else rate);
          dstFormat = \<lparr>enc = (if signed' then PCM_SIGNED else PCM_UNSIGNED),
                       sampleRate = adjRate, sampleSizeInBits = bits, channels = channel,
                       frameSize = jint ((jint (bits + 7) sdiv 8) * channel),
                       frameRate = adjRate, bigEndian = bigEndian'\<rparr>
      in if \<not> isConversionSupported sys dstFormat audioInputFormat then None
         else Some (getConvertedStream sys dstFormat audioIn))"








text \<open>
  Sound systems to run the function on. An input stream that closes and one whose
  \<open>close()\<close> throws; a system that supports every conversion and delivers three bytes, one
  whose converted stream delivers a byte and then fails to read, one that supports no
  conversion, one that supports none and whose input stream fails to close, one that
  delivers three bytes and whose input stream fails to close, and one whose converted stream
  delivers three bytes and fails to close.
\<close>

definition wav0 :: audio_stream where
  "wav0 = \<lparr>format = \<lparr>enc = PCM_SIGNED, sampleRate = 22050, sampleSizeInBits = 16, channels = 2,
                      frameSize = 4, frameRate = 22050, bigEndian = False\<rparr>,
           pending = [], close_throws = False\<rparr>"

definition wav_stuck :: audio_stream where
  "wav_stuck = wav0\<lparr>close_throws := True\<rparr>"







section \<open>Properties of the sound drivers\<close>

subsection \<open>Promotion and truncation\<close>

lemma to_u8_or: "to_u8 (promote8 v OR x) = v OR to_u8 x"
  unfolding to_u8_def promote8_def
  by (rule bit_word_eqI) (auto simp: bit_simps)

lemma to_u8_and: "to_u8 (promote8 v AND x) = v AND to_u8 x"
  unfolding to_u8_def promote8_def
  by (rule bit_word_eqI) (auto simp: bit_simps)

lemma to_u8_and_not: "to_u8 (promote8 v AND NOT x) = v AND NOT (to_u8 x)"
  unfolding to_u8_def promote8_def
  by (rule bit_word_eqI) (auto simp: bit_simps)

lemma to_u8_numeral [simp]: "to_u8 0x0F = 0x0F" "to_u8 1 = 1" "to_u8 3 = 3"
  by (simp_all add: to_u8_def)

lemma low_nibble_id: "volume \<le> 15 \<Longrightarrow> volume AND 0x0F = (volume :: u8)"
proof -
  assume "volume \<le> 15"
  then have "volume < 2 ^ 4"
    by (simp add: word_le_nat_alt word_less_nat_alt)
  then have "volume AND mask 4 = volume"
    by (rule less_mask_eq)
  then show ?thesis
    by (simp add: mask_eq_exp_minus_1)
qed

lemmas prims = Z80_requestBus_def Z80_releaseBus_def bus_read_def bus_write_def
  bus_or_def bus_and_not_def Z80_startReset_def Z80_endReset_def

lemma currentDriver_loadDriver [simp]: "currentDriver (Z80_loadDriver h d w s) = Some d"
  by (simp add: Z80_loadDriver_def)

lemma trace_loadDriver [simp]: "trace (Z80_loadDriver h d w s) = trace s @ [LoadDriver d w]"
  by (simp add: Z80_loadDriver_def)

lemma mem_loadDriver_loaded [simp]:
  "currentDriver s = Some d \<Longrightarrow> mem (Z80_loadDriver h d w s) = mem s"
  by (simp add: Z80_loadDriver_def)

lemma setVolume_mem:
  "mem (SND_setVolume_4PCM_ENV h channel volume s) =
     (found h Z80_DRIVER_4PCM_ENV s)(Z80_DRV_PARAMS h + 0x20 + unat channel := volume AND 0x0F)"
  by (simp add: SND_setVolume_4PCM_ENV_def found_def prims Let_def to_u8_and)

lemma setVolume_driver:
  "currentDriver (SND_setVolume_4PCM_ENV h channel volume s) = Some Z80_DRIVER_4PCM_ENV"
  by (simp add: SND_setVolume_4PCM_ENV_def prims Let_def)

lemma getVolume_value:
  "fst (SND_getVolume_4PCM_ENV h channel s) =
     found h Z80_DRIVER_4PCM_ENV s (Z80_DRV_PARAMS h + 0x20 + unat channel) AND 0x0F"
  by (simp add: SND_getVolume_4PCM_ENV_def found_def prims Let_def to_u8_and)

text \<open>
  C7. On the envelope driver, for every channel and every state: \<open>setVolume\<close> stores the
  low four bits of the volume in the volume byte of the channel, whatever the high bits
  are, and a \<open>getVolume\<close> that follows returns them; for a volume from 0 to 15 it returns
  the volume that was set.
\<close>

theorem volume_set_get:
  "mem (SND_setVolume_4PCM_ENV h channel volume s) (Z80_DRV_PARAMS h + 0x20 + unat channel)
     = volume AND 0x0F \<and>
   fst (SND_getVolume_4PCM_ENV h channel (SND_setVolume_4PCM_ENV h channel volume s))
     = volume AND 0x0F \<and>
   (volume \<le> 15 \<longrightarrow>
      fst (SND_getVolume_4PCM_ENV h channel (SND_setVolume_4PCM_ENV h channel volume s))
        = volume)"
proof -
  let ?s = "SND_setVolume_4PCM_ENV h channel volume s"
  have stored: "mem ?s (Z80_DRV_PARAMS h + 0x20 + unat channel) = volume AND 0x0F"
    by (simp add: setVolume_mem)
  have "found h Z80_DRIVER_4PCM_ENV ?s = mem ?s"
    by (simp add: found_def setVolume_driver)
  then have got: "fst (SND_getVolume_4PCM_ENV h channel ?s) = volume AND 0x0F"
    by (simp add: getVolume_value stored word_bw_assocs)
  from stored got show ?thesis
    by (simp add: low_nibble_id)
qed

theorem volume_set_get_witness:
  "(9 :: u8) \<le> 15 \<and>
   fst (SND_getVolume_4PCM_ENV cfg0 2 (SND_setVolume_4PCM_ENV cfg0 2 9 (st0 Z80_DRIVER_4PCM))) = 9 \<and>
   fst (SND_getVolume_4PCM_ENV cfg0 2 (SND_setVolume_4PCM_ENV cfg0 2 0x19 (st0 Z80_DRIVER_4PCM))) = 9"
  using volume_set_get [of cfg0 2 9 "st0 Z80_DRIVER_4PCM"]
    volume_set_get [of cfg0 2 "0x19" "st0 Z80_DRIVER_4PCM"]
  by simp

subsection \<open>The scan for a free channel\<close>

lemma unat_succ: "(ch :: u16) < n \<Longrightarrow> unat (ch + 1) = Suc (unat ch)"
proof -
  assume "ch < n"
  then have lt: "unat ch < unat n"
    by (simp add: word_less_nat_alt)
  have "unat n < 2 ^ 16"
    using unsigned_less [of n] by simp
  with lt have "unat ch + 1 < 2 ^ 16"
    by simp
  then show "unat (ch + 1) = Suc (unat ch)"
    by (simp add: unat_word_ariths)
qed

lemma scan_free_find:
  "ch \<le> n \<Longrightarrow> unat (scan_free h n status ch) =
     (case find (\<lambda>c. \<not> busy h status c) [unat ch..<unat n] of
        Some c \<Rightarrow> c | None \<Rightarrow> unat n)"
proof (induction h n status ch rule: scan_free.induct)
  case (1 h n status ch)
  show ?case
  proof (cases "ch < n")
    case less: True
    then have lt: "unat ch < unat n"
      by (simp add: word_less_nat_alt)
    have suc: "unat (ch + 1) = Suc (unat ch)"
      using less by (rule unat_succ)
    have le: "ch + 1 \<le> n"
      using suc lt by (simp add: word_le_nat_alt)
    show ?thesis
    proof (cases "busy h status (unat ch)")
      case True
      with less have step: "scan_free h n status ch = scan_free h n status (ch + 1)"
        by (subst scan_free.simps) (simp add: busy_def)
      have "unat (scan_free h n status (ch + 1)) =
          (case find (\<lambda>c. \<not> busy h status c) [unat (ch + 1)..<unat n] of
             Some c \<Rightarrow> c | None \<Rightarrow> unat n)"
        using "1.IH" less True le by (simp add: busy_def)
      with step show ?thesis
        using lt True suc by (simp add: upt_conv_Cons)
    next
      case False
      then have "scan_free h n status ch = ch"
        by (subst scan_free.simps) (simp add: busy_def)
      then show ?thesis
        using lt False by (simp add: upt_conv_Cons)
    qed
  next
    case False
    with "1.prems" have "ch = n"
      by simp
    then show ?thesis
      by (subst scan_free.simps) simp
  qed
qed

lemma find_upt_None: "find P [0..<n] = None \<longleftrightarrow> (\<forall>k<n. \<not> P k)"
  by (auto simp: find_None_iff)

lemma find_upt_Some:
  "find P [0..<n] = Some c \<Longrightarrow> c < n \<and> P c \<and> (\<forall>k<c. \<not> P k)"
  by (auto simp: find_Some_iff)

lemma select_auto:
  assumes "promote16 channel = SOUND_PCM_CH_AUTO h" and "0 < n"
  shows "unat (select_channel h n status channel) = first_free (busy h status) (unat n)"
proof -
  have scan: "unat (scan_free h n status 0) =
      (case find (\<lambda>c. \<not> busy h status c) [0..<unat n] of Some c \<Rightarrow> c | None \<Rightarrow> unat n)"
    using scan_free_find [of 0 n h status] by simp
  show ?thesis
  proof (cases "find (\<lambda>c. \<not> busy h status c) [0..<unat n]")
    case None
    with scan have "unat (scan_free h n status 0) = unat n"
      by simp
    then have "scan_free h n status 0 = n"
      by (simp add: word_unat_eq_iff)
    with None assms show ?thesis
      by (simp add: select_channel_def first_free_def)
  next
    case (Some c)
    with scan have eq: "unat (scan_free h n status 0) = c"
      by simp
    from Some have "c < unat n"
      by (auto dest: find_upt_Some)
    with eq have "scan_free h n status 0 \<noteq> n"
      by auto
    with Some eq assms show ?thesis
      by (simp add: select_channel_def first_free_def)
  qed
qed

lemma first_free_less: "0 < n \<Longrightarrow> first_free b n < n"
  by (auto simp: first_free_def split: option.splits dest: find_upt_Some)

lemma first_free_all_busy: "\<forall>k<n. b k \<Longrightarrow> first_free b n = 0"
  by (simp add: first_free_def find_upt_None [THEN iffD2])

lemma first_free_lowest:
  "k < n \<Longrightarrow> \<not> b k \<Longrightarrow> \<not> b (first_free b n) \<and> (\<forall>j<first_free b n. b j)"
proof -
  assume "k < n" "\<not> b k"
  then have "find (\<lambda>c. \<not> b c) [0..<n] \<noteq> None"
    by (auto simp: find_None_iff)
  then obtain c where c: "find (\<lambda>c. \<not> b c) [0..<n] = Some c"
    by auto
  then have "first_free b n = c"
    by (simp add: first_free_def)
  with find_upt_Some [OF c] show ?thesis
    by simp
qed

lemma select_channel_valid:
  assumes "requests h n channel" and "0 < n"
  shows "unat (select_channel h n status channel) < unat n"
proof (cases "promote16 channel = SOUND_PCM_CH_AUTO h")
  case True
  have "0 < unat n"
    using assms(2) by (simp add: word_less_nat_alt)
  with True assms(2) show ?thesis
    by (simp add: select_auto first_free_less)
next
  case False
  with assms(1) show ?thesis
    by (simp add: requests_def select_channel_def word_less_nat_alt)
qed

subsection \<open>The memory and the trace after each step\<close>

lemma sel_requestBus [simp]:
  "mem (Z80_requestBus w s) = mem s" "currentDriver (Z80_requestBus w s) = currentDriver s"
  "trace (Z80_requestBus w s) = trace s @ [RequestBus w]"
  by (simp_all add: Z80_requestBus_def)

lemma sel_releaseBus [simp]:
  "mem (Z80_releaseBus s) = mem s" "currentDriver (Z80_releaseBus s) = currentDriver s"
  "trace (Z80_releaseBus s) = trace s @ [ReleaseBus]"
  by (simp_all add: Z80_releaseBus_def)

lemma sel_startReset [simp]:
  "mem (Z80_startReset s) = mem s" "currentDriver (Z80_startReset s) = currentDriver s"
  "trace (Z80_startReset s) = trace s @ [StartReset]"
  by (simp_all add: Z80_startReset_def)

lemma sel_endReset [simp]:
  "mem (Z80_endReset s) = mem s" "currentDriver (Z80_endReset s) = currentDriver s"
  "trace (Z80_endReset s) = trace s @ [EndReset]"
  by (simp_all add: Z80_endReset_def)

lemma sel_bus_read [simp]:
  "fst (bus_read a s) = mem s a" "mem (snd (bus_read a s)) = mem s"
  "currentDriver (snd (bus_read a s)) = currentDriver s"
  "trace (snd (bus_read a s)) = trace s @ [BusRead a]"
  by (simp_all add: bus_read_def)

lemma sel_bus_write [simp]:
  "mem (bus_write a v s) = (mem s)(a := v)"
  "currentDriver (bus_write a v s) = currentDriver s"
  "trace (bus_write a v s) = trace s @ [BusWrite a v]"
  by (simp_all add: bus_write_def)

lemma sel_bus_or [simp]:
  "mem (bus_or a x s) = (mem s)(a := mem s a OR to_u8 x)"
  "currentDriver (bus_or a x s) = currentDriver s"
  "trace (bus_or a x s) = trace s @ [BusRead a, BusWrite a (mem s a OR to_u8 x)]"
  by (simp_all add: bus_or_def bus_read_def bus_write_def to_u8_or)

lemma sel_bus_and_not [simp]:
  "mem (bus_and_not a x s) = (mem s)(a := mem s a AND NOT (to_u8 x))"
  "currentDriver (bus_and_not a x s) = currentDriver s"
  "trace (bus_and_not a x s) = trace s @ [BusRead a, BusWrite a (mem s a AND NOT (to_u8 x))]"
  by (simp_all add: bus_and_not_def bus_read_def bus_write_def to_u8_and_not)

subsection \<open>What a start request does to the memory and to the trace\<close>

lemma new_events_append: "trace s' = trace s @ evs \<Longrightarrow> new_events s s' = evs"
  by (simp add: new_events_def)

lemma startPlay_channels_mem:
  "mem (startPlay_channels h drv n sft A L channel loop s) =
     (let m0 = found h drv s;
          ch = played_channel h drv n channel s;
          pb = Z80_DRV_PARAMS h + ch * 4;
          m4 = m0(pb := to_u8 (drop_bit sft A), pb + 1 := to_u8 (drop_bit (sft + 8) A),
                  pb + 2 := to_u8 (drop_bit sft L), pb + 3 := to_u8 (drop_bit (sft + 8) L));
          m5 = m4(Z80_DRV_COMMAND h := m4 (Z80_DRV_COMMAND h) OR command_bit h ch);
          lb = to_u8 (push_bit ch (Z80_DRV_STAT_PLAYING h))
      in m5(Z80_DRV_STATUS h + 1 :=
              (if loop \<noteq> 0 then m5 (Z80_DRV_STATUS h + 1) OR lb
               else m5 (Z80_DRV_STATUS h + 1) AND NOT lb)))"
  by (simp add: startPlay_channels_def found_def played_channel_def command_bit_def Let_def
      case_prod_beta)

lemma startPlay_channels_trace:
  "trace (startPlay_channels h drv n sft A L channel loop s) = trace s @
     (let m0 = found h drv s;
          ch = played_channel h drv n channel s;
          pb = Z80_DRV_PARAMS h + ch * 4;
          m4 = m0(pb := to_u8 (drop_bit sft A), pb + 1 := to_u8 (drop_bit (sft + 8) A),
                  pb + 2 := to_u8 (drop_bit sft L), pb + 3 := to_u8 (drop_bit (sft + 8) L));
          m5 = m4(Z80_DRV_COMMAND h := m4 (Z80_DRV_COMMAND h) OR command_bit h ch);
          lb = to_u8 (push_bit ch (Z80_DRV_STAT_PLAYING h))
      in [LoadDriver drv 1, RequestBus 1, BusRead (Z80_DRV_STATUS h),
          BusWrite pb (to_u8 (drop_bit sft A)),
          BusWrite (pb + 1) (to_u8 (drop_bit (sft + 8) A)),
          BusWrite (pb + 2) (to_u8 (drop_bit sft L)),
          BusWrite (pb + 3) (to_u8 (drop_bit (sft + 8) L)),
          BusRead (Z80_DRV_COMMAND h),
          BusWrite (Z80_DRV_COMMAND h) (m4 (Z80_DRV_COMMAND h) OR command_bit h ch),
          BusRead (Z80_DRV_STATUS h + 1),
          BusWrite (Z80_DRV_STATUS h + 1)
            (if loop \<noteq> 0 then m5 (Z80_DRV_STATUS h + 1) OR lb
             else m5 (Z80_DRV_STATUS h + 1) AND NOT lb),
          ReleaseBus])"
  by (simp add: startPlay_channels_def found_def played_channel_def command_bit_def Let_def
      case_prod_beta)

lemma played_channel_valid:
  "requests h n channel \<Longrightarrow> 0 < n \<Longrightarrow> played_channel h drv n channel s < unat n"
  by (simp add: played_channel_def select_channel_valid)

lemma played_channel_auto:
  "promote16 channel = SOUND_PCM_CH_AUTO h \<Longrightarrow> 0 < n \<Longrightarrow>
     played_channel h drv n channel s = first_free (play_bit h (found h drv s)) (unat n)"
  by (simp add: played_channel_def select_auto play_bit_def [abs_def])

lemma played_channel_explicit:
  "promote16 channel \<noteq> SOUND_PCM_CH_AUTO h \<Longrightarrow>
     played_channel h drv n channel s = unat channel"
  by (simp add: played_channel_def select_channel_def)

lemma first_free_is_lowest: "0 < n \<Longrightarrow> lowest_free b n (first_free b n)"
proof -
  assume pos: "0 < n"
  show ?thesis
  proof (cases "\<forall>k<n. b k")
    case True
    then show ?thesis
      using pos by (simp add: lowest_free_def first_free_all_busy)
  next
    case False
    then obtain k where "k < n" "\<not> b k"
      by blast
    then have "\<not> b (first_free b n) \<and> (\<forall>j<first_free b n. b j)"
      by (rule first_free_lowest)
    moreover note first_free_less [OF pos, of b]
    ultimately show ?thesis
      unfolding lowest_free_def if_not_P [OF False] by blast
  qed
qed

lemma auto_start:
  assumes "promote16 channel = SOUND_PCM_CH_AUTO h" and "0 < n"
  shows "lowest_free (play_bit h (found h drv s)) (unat n) (played_channel h drv n channel s)"
    and "played_channel h drv n channel s = first_free (play_bit h (found h drv s)) (unat n)"
    and "take 4 (new_events s (startPlay_channels h drv n sft A L channel loop s)) =
      [LoadDriver drv 1, RequestBus 1, BusRead (Z80_DRV_STATUS h),
       BusWrite (Z80_DRV_PARAMS h + played_channel h drv n channel s * 4)
         (to_u8 (drop_bit sft A))]"
proof -
  have pos: "0 < unat n"
    using assms(2) by (simp add: word_less_nat_alt)
  show ch: "played_channel h drv n channel s
      = first_free (play_bit h (found h drv s)) (unat n)"
    using assms by (rule played_channel_auto)
  show "lowest_free (play_bit h (found h drv s)) (unat n) (played_channel h drv n channel s)"
    unfolding ch using pos by (rule first_free_is_lowest)
  show "take 4 (new_events s (startPlay_channels h drv n sft A L channel loop s)) =
      [LoadDriver drv 1, RequestBus 1, BusRead (Z80_DRV_STATUS h),
       BusWrite (Z80_DRV_PARAMS h + played_channel h drv n channel s * 4)
         (to_u8 (drop_bit sft A))]"
    by (simp add: new_events_def startPlay_channels_trace Let_def)
qed

text \<open>
  C2. For every status byte, a start request with the automatic selector plays on the
  lowest channel whose play bit is clear in the status byte the function reads, on channel
  0 when the play bits of all channels are set (2 channels for 2ADPCM, 4 for 4PCM and
  4PCM_ENV). It is the channel of the allocator of the specification, it is always one of
  the channels of the driver, and the request goes on: the sample address is written to
  the parameters of that channel.
\<close>

theorem auto_channel:
  assumes "promote16 channel = SOUND_PCM_CH_AUTO h"
  shows
    "(let c = played_channel h Z80_DRIVER_2ADPCM 2 channel s;
          b = play_bit h (found h Z80_DRIVER_2ADPCM s)
      in lowest_free b 2 c \<and> c = first_free b 2 \<and>
         take 4 (new_events s (SND_startPlay_2ADPCM h A L channel loop s)) =
           [LoadDriver Z80_DRIVER_2ADPCM 1, RequestBus 1, BusRead (Z80_DRV_STATUS h),
            BusWrite (Z80_DRV_PARAMS h + c * 4) (to_u8 (drop_bit 7 A))]) \<and>
     (let c = played_channel h Z80_DRIVER_4PCM 4 channel s;
          b = play_bit h (found h Z80_DRIVER_4PCM s)
      in lowest_free b 4 c \<and> c = first_free b 4 \<and>
         take 4 (new_events s (SND_startPlay_4PCM h A L channel loop s)) =
           [LoadDriver Z80_DRIVER_4PCM 1, RequestBus 1, BusRead (Z80_DRV_STATUS h),
            BusWrite (Z80_DRV_PARAMS h + c * 4) (to_u8 (drop_bit 8 A))]) \<and>
     (let c = played_channel h Z80_DRIVER_4PCM_ENV 4 channel s;
          b = play_bit h (found h Z80_DRIVER_4PCM_ENV s)
      in lowest_free b 4 c \<and> c = first_free b 4 \<and>
         take 4 (new_events s (SND_startPlay_4PCM_ENV h A L channel loop s)) =
           [LoadDriver Z80_DRIVER_4PCM_ENV 1, RequestBus 1, BusRead (Z80_DRV_STATUS h),
            BusWrite (Z80_DRV_PARAMS h + c * 4) (to_u8 (drop_bit 8 A))])"
proof -
  have two: "unat (2 :: u16) = 2" and four: "unat (4 :: u16) = 4"
    by simp_all
  have pos: "(0 :: u16) < 2" "(0 :: u16) < 4"
    by simp_all
  have g: "lowest_free (play_bit h (found h drv s)) (unat n) (played_channel h drv n channel s)
      \<and> played_channel h drv n channel s = first_free (play_bit h (found h drv s)) (unat n)
      \<and> take 4 (new_events s (startPlay_channels h drv n sft A L channel loop s)) =
        [LoadDriver drv 1, RequestBus 1, BusRead (Z80_DRV_STATUS h),
         BusWrite (Z80_DRV_PARAMS h + played_channel h drv n channel s * 4)
           (to_u8 (drop_bit sft A))]" if "0 < n" for drv n sft
    using auto_start [OF assms that] by blast
  show ?thesis
    unfolding Let_def SND_startPlay_2ADPCM_def SND_startPlay_4PCM_def
      SND_startPlay_4PCM_ENV_def
    using g [OF pos(1), of Z80_DRIVER_2ADPCM 7, unfolded two]
      g [OF pos(2), of Z80_DRIVER_4PCM 8, unfolded four]
      g [OF pos(2), of Z80_DRIVER_4PCM_ENV 8, unfolded four]
    by blast
qed


lemma cfg0_simps [simp]:
  "Z80_DRV_COMMAND cfg0 = 0xA00100" "Z80_DRV_STATUS cfg0 = 0xA00102"
  "Z80_DRV_PARAMS cfg0 = 0xA00104" "Z80_DRV_COM_PLAY cfg0 = 1"
  "Z80_DRV_STAT_PLAYING cfg0 = 1" "Z80_DRV_STAT_PLAYING_SFT cfg0 = 0"
  "SOUND_PCM_CH_AUTO cfg0 = 0xFF" "smp_null cfg0 = 0x1200" "sizeof_smp_null cfg0 = 0x100"
  "smp_null_pcm cfg0 = 0x1380" "sizeof_smp_null_pcm cfg0 = 0x80"
  by (simp_all add: cfg0_def)

lemma st0_simps [simp]:
  "currentDriver (st0 d) = Some d" "trace (st0 d) = []"
  "mem (st0 d) = (\<lambda>a. 0)(0xA00100 := 0x04, 0xA00102 := 0x05, 0xA00103 := 0x04)"
  by (simp_all add: st0_def)

lemma found_st0 [simp]: "found h d (st0 d) = mem (st0 d)"
  by (simp add: found_def)

lemma window_ok_cfg0 [simp]: "window_ok cfg0"
  by (simp add: window_ok_def)

lemma busy_cfg0_5:
  "busy cfg0 5 0" "\<not> busy cfg0 5 (Suc 0)" "busy cfg0 5 2" "\<not> busy cfg0 5 3"
  by (simp_all add: busy_def promote8_def)

lemma scan_cfg0_5: "scan_free cfg0 4 5 0 = 1"
proof -
  have "scan_free cfg0 4 5 0 = scan_free cfg0 4 5 1"
    by (subst scan_free.simps) (simp add: promote8_def)
  also have "\<dots> = 1"
    by (subst scan_free.simps) (simp add: promote8_def)
  finally show ?thesis .
qed

lemma played_st0: "played_channel cfg0 Z80_DRIVER_4PCM 4 0xFF (st0 Z80_DRIVER_4PCM) = 1"
  by (simp add: played_channel_def select_channel_def promote16_def scan_cfg0_5)

theorem auto_channel_witness:
  "promote16 0xFF = SOUND_PCM_CH_AUTO cfg0 \<and>
   play_bit cfg0 (mem (st0 Z80_DRIVER_4PCM)) 0 \<and>
   \<not> play_bit cfg0 (mem (st0 Z80_DRIVER_4PCM)) 1 \<and>
   played_channel cfg0 Z80_DRIVER_4PCM 4 0xFF (st0 Z80_DRIVER_4PCM) = 1 \<and>
   first_free (play_bit cfg0 (mem (st0 Z80_DRIVER_4PCM))) 4 = 1 \<and>
   lowest_free (play_bit cfg0 (mem (st0 Z80_DRIVER_4PCM))) 4 1"
proof -
  let ?s = "st0 Z80_DRIVER_4PCM"
  let ?b = "play_bit cfg0 (mem ?s)"
  have auto: "promote16 0xFF = SOUND_PCM_CH_AUTO cfg0"
    by (simp add: promote16_def)
  have "lowest_free (play_bit cfg0 (found cfg0 Z80_DRIVER_4PCM ?s)) 4
          (played_channel cfg0 Z80_DRIVER_4PCM 4 0xFF ?s) \<and>
        played_channel cfg0 Z80_DRIVER_4PCM 4 0xFF ?s
          = first_free (play_bit cfg0 (found cfg0 Z80_DRIVER_4PCM ?s)) 4"
    using auto_channel [OF auto, where s = ?s and A = 0 and L = 0 and loop = 0]
    unfolding Let_def by blast
  then have both: "lowest_free ?b 4 1 \<and> 1 = first_free ?b 4"
    unfolding played_st0 found_st0 .
  from both have low: "lowest_free ?b 4 1" ..
  from both have "1 = first_free ?b 4" ..
  then have ff: "first_free ?b 4 = 1" ..
  have bits: "?b 0" "\<not> ?b 1"
    by (simp_all add: play_bit_def busy_cfg0_5)
  show ?thesis
    by (intro conjI auto bits played_st0 ff low)
qed

subsection \<open>The encoding of a parameters block\<close>

lemma to_u8_low_byte: "to_u8 x = ucast (x AND 0xFF)"
proof -
  have low: "(0xFF :: u32) = mask 8"
    by (simp add: mask_eq_exp_minus_1)
  show ?thesis
    unfolding to_u8_def low by (intro bit_word_eqI) (auto simp: bit_simps)
qed

lemma decode16_to_u8:
  assumes "x < 2 ^ 16"
  shows "decode16 (to_u8 x) (to_u8 (drop_bit 8 x)) = x"
proof -
  have "take_bit 16 x = x"
    using less_mask_eq [of x 16] assms by (simp add: take_bit_eq_mask)
  then have high: "bit x n \<longrightarrow> n < 16" for n
    by (metis bit_take_bit_iff)
  show ?thesis
    unfolding decode16_def to_u8_def
  proof (rule bit_word_eqI)
    fix n
    assume "n < LENGTH(32)"
    then show "bit (ucast (ucast x :: u8) OR push_bit 8 (ucast (ucast (drop_bit 8 x) :: u8)) :: u32) n
        \<longleftrightarrow> bit x n"
      using high [of n] by (auto simp: bit_simps)
  qed
qed

lemma round_tripI:
  assumes "m pb = to_u8 (drop_bit s A)" and "m (pb + 1) = to_u8 (drop_bit (s + 8) A)"
    and "m (pb + 2) = to_u8 (drop_bit s L)" and "m (pb + 3) = to_u8 (drop_bit (s + 8) L)"
  shows "round_trip m pb s A L"
proof -
  have shift: "drop_bit (s + 8) x = drop_bit 8 (drop_bit s x)" for x :: u32
    by (simp add: add.commute)
  have "encodes m pb s A L"
    using assms by (simp add: encodes_def to_u8_low_byte)
  moreover have "decode16 (m pb) (m (pb + 1)) = drop_bit s A" if "drop_bit s A < 2 ^ 16"
    unfolding assms shift using that by (rule decode16_to_u8)
  moreover have "decode16 (m (pb + 2)) (m (pb + 3)) = drop_bit s L" if "drop_bit s L < 2 ^ 16"
    unfolding assms shift using that by (rule decode16_to_u8)
  ultimately show ?thesis
    unfolding round_trip_def by blast
qed

lemma command_bit_0: "command_bit h 0 = to_u8 (Z80_DRV_COM_PLAY h)"
  by (simp add: command_bit_def)

lemma startPlay_PCM_mem:
  "mem (SND_startPlay_PCM h A L rate pan loop s) =
     (let m0 = found h Z80_DRIVER_PCM s;
          pb = Z80_DRV_PARAMS h;
          m8 = m0(pb := to_u8 (drop_bit 8 A), pb + 1 := to_u8 (drop_bit 16 A),
                  pb + 2 := to_u8 (drop_bit 8 L), pb + 3 := to_u8 (drop_bit 16 L),
                  pb + 4 := rate, pb + 6 := pan);
          m9 = m8(Z80_DRV_COMMAND h := m8 (Z80_DRV_COMMAND h) OR command_bit h 0);
          lb = to_u8 (Z80_DRV_STAT_PLAYING h)
      in m9(Z80_DRV_STATUS h + 1 :=
              (if loop \<noteq> 0 then m9 (Z80_DRV_STATUS h + 1) OR lb
               else m9 (Z80_DRV_STATUS h + 1) AND NOT lb)))"
  by (simp add: SND_startPlay_PCM_def found_def command_bit_0 Let_def)

lemma startPlay_PCM_trace:
  "trace (SND_startPlay_PCM h A L rate pan loop s) = trace s @
     (let m0 = found h Z80_DRIVER_PCM s;
          pb = Z80_DRV_PARAMS h;
          m8 = m0(pb := to_u8 (drop_bit 8 A), pb + 1 := to_u8 (drop_bit 16 A),
                  pb + 2 := to_u8 (drop_bit 8 L), pb + 3 := to_u8 (drop_bit 16 L),
                  pb + 4 := rate, pb + 6 := pan);
          m9 = m8(Z80_DRV_COMMAND h := m8 (Z80_DRV_COMMAND h) OR command_bit h 0);
          lb = to_u8 (Z80_DRV_STAT_PLAYING h)
      in [LoadDriver Z80_DRIVER_PCM 1, RequestBus 1,
          BusWrite pb (to_u8 (drop_bit 8 A)),
          BusWrite (pb + 1) (to_u8 (drop_bit 16 A)),
          BusWrite (pb + 2) (to_u8 (drop_bit 8 L)),
          BusWrite (pb + 3) (to_u8 (drop_bit 16 L)),
          BusWrite (pb + 4) rate,
          BusWrite (pb + 6) pan,
          BusRead (Z80_DRV_COMMAND h),
          BusWrite (Z80_DRV_COMMAND h) (m8 (Z80_DRV_COMMAND h) OR command_bit h 0),
          BusRead (Z80_DRV_STATUS h + 1),
          BusWrite (Z80_DRV_STATUS h + 1)
            (if loop \<noteq> 0 then m9 (Z80_DRV_STATUS h + 1) OR lb
             else m9 (Z80_DRV_STATUS h + 1) AND NOT lb),
          ReleaseBus])"
  by (simp add: SND_startPlay_PCM_def found_def command_bit_0 Let_def)

text \<open>
  The bytes of the window are apart: the command byte and the second status byte are none
  of the \<open>0x24\<close> parameter bytes.
\<close>

lemma window_apart:
  assumes "window_ok h" and "k < 0x24"
  shows "Z80_DRV_COMMAND h \<noteq> Z80_DRV_PARAMS h + k"
    and "Z80_DRV_STATUS h \<noteq> Z80_DRV_PARAMS h + k"
    and "Z80_DRV_STATUS h + 1 \<noteq> Z80_DRV_PARAMS h + k"
  using assms unfolding window_ok_def by arith+

lemma startPlay_channels_params:
  assumes "window_ok h" and "played_channel h drv n channel s < 4"
  shows "round_trip (mem (startPlay_channels h drv n sft A L channel loop s))
           (Z80_DRV_PARAMS h + played_channel h drv n channel s * 4) sft A L"
proof -
  let ?c = "played_channel h drv n channel s"
  let ?pb = "Z80_DRV_PARAMS h + ?c * 4"
  let ?m = "mem (startPlay_channels h drv n sft A L channel loop s)"
  have k: "?c * 4 < 0x24" "?c * 4 + 1 < 0x24" "?c * 4 + 2 < 0x24" "?c * 4 + 3 < 0x24"
    using assms(2) by simp_all
  note sep = k [THEN window_apart(1) [OF assms(1)]] k [THEN window_apart(3) [OF assms(1)]]
  have "?m ?pb = to_u8 (drop_bit sft A)" "?m (?pb + 1) = to_u8 (drop_bit (sft + 8) A)"
    "?m (?pb + 2) = to_u8 (drop_bit sft L)" "?m (?pb + 3) = to_u8 (drop_bit (sft + 8) L)"
    using sep unfolding startPlay_channels_mem Let_def by simp_all
  then show ?thesis
    by (rule round_tripI)
qed

lemma startPlay_PCM_params:
  assumes "window_ok h"
  shows "round_trip (mem (SND_startPlay_PCM h A L rate pan loop s)) (Z80_DRV_PARAMS h) 8 A L"
proof -
  let ?pb = "Z80_DRV_PARAMS h"
  let ?m = "mem (SND_startPlay_PCM h A L rate pan loop s)"
  have k: "0 < (0x24 :: nat)" "1 < (0x24 :: nat)" "2 < (0x24 :: nat)" "3 < (0x24 :: nat)"
    by simp_all
  note sep = k [THEN window_apart(1) [OF assms(1)]] k [THEN window_apart(3) [OF assms(1)]]
  have "?m ?pb = to_u8 (drop_bit 8 A)" "?m (?pb + 1) = to_u8 (drop_bit (8 + 8) A)"
    "?m (?pb + 2) = to_u8 (drop_bit 8 L)" "?m (?pb + 3) = to_u8 (drop_bit (8 + 8) L)"
    using sep unfolding startPlay_PCM_mem Let_def by simp_all
  then show ?thesis
    by (rule round_tripI)
qed

text \<open>
  C1. For every sample address \<open>A\<close> and length \<open>L\<close> (aligned or not), \<open>startPlay\<close> of the
  four PCM drivers leaves in the parameters block of the channel it plays on the bytes
  \<open>(A >> s) & 0xFF\<close>, \<open>(A >> (s+8)) & 0xFF\<close>, \<open>(L >> s) & 0xFF\<close> and
  \<open>(L >> (s+8)) & 0xFF\<close>, with \<open>s = 8\<close> for PCM, 4PCM and 4PCM_ENV and \<open>s = 7\<close> for
  2ADPCM, and decoding the two pairs of bytes gives \<open>A >> s\<close> and \<open>L >> s\<close> back whenever
  they fit in 16 bits. The channel is the automatic one or one of the channels of the
  driver, and the bytes of the register window are different bytes.
\<close>

theorem params_round_trip:
  assumes "window_ok h" and "requests h 2 c2" and "requests h 4 c4"
  shows
    "round_trip (mem (SND_startPlay_PCM h A L rate pan loop s)) (Z80_DRV_PARAMS h) 8 A L \<and>
     round_trip (mem (SND_startPlay_2ADPCM h A L c2 loop s))
       (Z80_DRV_PARAMS h + played_channel h Z80_DRIVER_2ADPCM 2 c2 s * 4) 7 A L \<and>
     round_trip (mem (SND_startPlay_4PCM h A L c4 loop s))
       (Z80_DRV_PARAMS h + played_channel h Z80_DRIVER_4PCM 4 c4 s * 4) 8 A L \<and>
     round_trip (mem (SND_startPlay_4PCM_ENV h A L c4 loop s))
       (Z80_DRV_PARAMS h + played_channel h Z80_DRIVER_4PCM_ENV 4 c4 s * 4) 8 A L"
proof -
  have v2: "played_channel h drv 2 c2 s < 4" for drv
    using played_channel_valid [OF assms(2), of drv s] by simp
  have v4: "played_channel h drv 4 c4 s < 4" for drv
    using played_channel_valid [OF assms(3), of drv s] by simp
  show ?thesis
    unfolding SND_startPlay_2ADPCM_def SND_startPlay_4PCM_def SND_startPlay_4PCM_ENV_def
    by (intro conjI startPlay_PCM_params startPlay_channels_params assms(1) v2 v4)
qed

lemma requests_cfg0 [simp]: "requests cfg0 n 0xFF"
  by (simp add: requests_def promote16_def)

lemma played_explicit_cfg0 [simp]: "played_channel cfg0 drv n 1 s = 1"
  by (simp add: played_channel_def select_channel_def promote16_def)

theorem params_round_trip_witness:
  "window_ok cfg0 \<and> requests cfg0 2 1 \<and> requests cfg0 4 0xFF \<and>
   drop_bit 7 (0x12380 :: u32) < 2 ^ 16 \<and>
   mem (SND_startPlay_2ADPCM cfg0 0x12380 0x400 1 0 (st0 Z80_DRIVER_2ADPCM)) 0xA00108 = 0x47 \<and>
   mem (SND_startPlay_2ADPCM cfg0 0x12380 0x400 1 0 (st0 Z80_DRIVER_2ADPCM)) 0xA00109 = 0x02 \<and>
   decode16 0x47 0x02 = drop_bit 7 (0x12380 :: u32)"
proof -
  let ?m = "mem (SND_startPlay_2ADPCM cfg0 0x12380 0x400 1 0 (st0 Z80_DRIVER_2ADPCM))"
  have r2: "requests cfg0 2 1"
    by (simp add: requests_def)
  have "round_trip ?m (Z80_DRV_PARAMS cfg0
      + played_channel cfg0 Z80_DRIVER_2ADPCM 2 1 (st0 Z80_DRIVER_2ADPCM) * 4) 7 0x12380 0x400"
    using params_round_trip [OF window_ok_cfg0 r2 requests_cfg0] by blast
  then have rt: "round_trip ?m 0xA00108 7 0x12380 0x400"
    by simp
  then have "?m 0xA00108 = 0x47" "?m (0xA00108 + 1) = 0x02"
    by (simp_all add: round_trip_def encodes_def)
  moreover from rt have "decode16 (?m 0xA00108) (?m (0xA00108 + 1)) = drop_bit 7 (0x12380 :: u32)"
    by (simp add: round_trip_def)
  ultimately show ?thesis
    using r2 by simp
qed

subsection \<open>The command byte and the status bytes after a start request\<close>

lemma command_apart:
  assumes "window_ok h"
  shows "Z80_DRV_COMMAND h \<noteq> Z80_DRV_STATUS h"
    and "Z80_DRV_STATUS h \<noteq> Z80_DRV_COMMAND h"
    and "Z80_DRV_COMMAND h \<noteq> Z80_DRV_STATUS h + 1"
  using assms unfolding window_ok_def by auto

lemma keeps_command_bitsI:
  "m' (Z80_DRV_COMMAND h) = m (Z80_DRV_COMMAND h) OR command_bit h c \<Longrightarrow>
     keeps_command_bits h m m' c"
  by (simp add: keeps_command_bits_def bit_simps)

lemma startPlay_channels_command:
  assumes "window_ok h" and "played_channel h drv n channel s < 4"
  shows "mem (startPlay_channels h drv n sft A L channel loop s) (Z80_DRV_COMMAND h) =
     found h drv s (Z80_DRV_COMMAND h) OR command_bit h (played_channel h drv n channel s)"
proof -
  let ?c = "played_channel h drv n channel s"
  have k: "?c * 4 < 0x24" "?c * 4 + 1 < 0x24" "?c * 4 + 2 < 0x24" "?c * 4 + 3 < 0x24"
    using assms(2) by simp_all
  note sep = k [THEN window_apart(1) [OF assms(1)]] command_apart(3) [OF assms(1)]
  show ?thesis
    using sep unfolding startPlay_channels_mem Let_def by simp
qed

lemma startPlay_channels_status:
  assumes "window_ok h" and "played_channel h drv n channel s < 4"
  shows "mem (startPlay_channels h drv n sft A L channel loop s) (Z80_DRV_STATUS h) =
     found h drv s (Z80_DRV_STATUS h)"
proof -
  let ?c = "played_channel h drv n channel s"
  have k: "?c * 4 < 0x24" "?c * 4 + 1 < 0x24" "?c * 4 + 2 < 0x24" "?c * 4 + 3 < 0x24"
    using assms(2) by simp_all
  note sep = k [THEN window_apart(2) [OF assms(1)]] command_apart(2) [OF assms(1)]
  show ?thesis
    using sep unfolding startPlay_channels_mem Let_def by simp
qed

lemma startPlay_PCM_command:
  assumes "window_ok h"
  shows "mem (SND_startPlay_PCM h A L rate pan loop s) (Z80_DRV_COMMAND h) =
     found h Z80_DRIVER_PCM s (Z80_DRV_COMMAND h) OR command_bit h 0"
proof -
  have k: "0 < (0x24 :: nat)" "1 < (0x24 :: nat)" "2 < (0x24 :: nat)" "3 < (0x24 :: nat)"
    "4 < (0x24 :: nat)" "6 < (0x24 :: nat)"
    by simp_all
  note sep = k [THEN window_apart(1) [OF assms(1)]] command_apart(3) [OF assms(1)]
  show ?thesis
    using sep unfolding startPlay_PCM_mem Let_def by simp
qed

lemma startPlay_PCM_status:
  assumes "window_ok h"
  shows "mem (SND_startPlay_PCM h A L rate pan loop s) (Z80_DRV_STATUS h) =
     found h Z80_DRIVER_PCM s (Z80_DRV_STATUS h)"
proof -
  have k: "0 < (0x24 :: nat)" "1 < (0x24 :: nat)" "2 < (0x24 :: nat)" "3 < (0x24 :: nat)"
    "4 < (0x24 :: nat)" "6 < (0x24 :: nat)"
    by simp_all
  note sep = k [THEN window_apart(2) [OF assms(1)]] command_apart(2) [OF assms(1)]
  show ?thesis
    using sep unfolding startPlay_PCM_mem Let_def by simp
qed

text \<open>
  C10. For the four PCM drivers, \<open>startPlay\<close> leaves in the command byte the byte it found
  there, ORed with the command bit of the channel it plays on: every command bit that was
  set, for this or for another channel, is still set, and none is cleared. The channel is
  the automatic one or one of the channels of the driver, and the bytes of the register
  window are different bytes.
\<close>

theorem start_keeps_command_bits:
  assumes "window_ok h" and "requests h 2 c2" and "requests h 4 c4"
  shows
    "keeps_command_bits h (found h Z80_DRIVER_PCM s)
       (mem (SND_startPlay_PCM h A L rate pan loop s)) 0 \<and>
     keeps_command_bits h (found h Z80_DRIVER_2ADPCM s)
       (mem (SND_startPlay_2ADPCM h A L c2 loop s))
       (played_channel h Z80_DRIVER_2ADPCM 2 c2 s) \<and>
     keeps_command_bits h (found h Z80_DRIVER_4PCM s)
       (mem (SND_startPlay_4PCM h A L c4 loop s))
       (played_channel h Z80_DRIVER_4PCM 4 c4 s) \<and>
     keeps_command_bits h (found h Z80_DRIVER_4PCM_ENV s)
       (mem (SND_startPlay_4PCM_ENV h A L c4 loop s))
       (played_channel h Z80_DRIVER_4PCM_ENV 4 c4 s)"
proof -
  have v2: "played_channel h drv 2 c2 s < 4" for drv
    using played_channel_valid [OF assms(2), of drv s] by simp
  have v4: "played_channel h drv 4 c4 s < 4" for drv
    using played_channel_valid [OF assms(3), of drv s] by simp
  show ?thesis
    unfolding SND_startPlay_2ADPCM_def SND_startPlay_4PCM_def SND_startPlay_4PCM_ENV_def
    by (intro conjI keeps_command_bitsI startPlay_PCM_command startPlay_channels_command
        assms(1) v2 v4)
qed

theorem start_keeps_command_bits_witness:
  "window_ok cfg0 \<and> requests cfg0 2 1 \<and> requests cfg0 4 0xFF \<and>
   mem (st0 Z80_DRIVER_4PCM) (Z80_DRV_COMMAND cfg0) = 0x04 \<and>
   mem (SND_startPlay_4PCM cfg0 0x12300 0x400 0xFF 0 (st0 Z80_DRIVER_4PCM))
     (Z80_DRV_COMMAND cfg0) = 0x06"
proof -
  let ?s = "st0 Z80_DRIVER_4PCM"
  have r2: "requests cfg0 2 1"
    by (simp add: requests_def)
  have "keeps_command_bits cfg0 (found cfg0 Z80_DRIVER_4PCM ?s)
      (mem (SND_startPlay_4PCM cfg0 0x12300 0x400 0xFF 0 ?s))
      (played_channel cfg0 Z80_DRIVER_4PCM 4 0xFF ?s)"
    using start_keeps_command_bits [OF window_ok_cfg0 r2 requests_cfg0] by blast
  then have "mem (SND_startPlay_4PCM cfg0 0x12300 0x400 0xFF 0 ?s) (Z80_DRV_COMMAND cfg0)
      = 0x04 OR command_bit cfg0 1"
    by (simp add: keeps_command_bits_def played_st0)
  then show ?thesis
    using r2 by (simp add: command_bit_def to_u8_def)
qed

lemma command_bit_one:
  "Z80_DRV_COM_PLAY h = 1 \<Longrightarrow> command_bit h c = push_bit c 1"
  unfolding command_bit_def to_u8_def
  by (intro bit_word_eqI) (auto simp: bit_simps)

lemma startPlay_channels_written:
  assumes "window_ok h" and "played_channel h drv n channel s < 4"
  shows "written (Z80_DRV_COMMAND h)
       (new_events s (startPlay_channels h drv n sft A L channel loop s)) =
     [found h drv s (Z80_DRV_COMMAND h) OR command_bit h (played_channel h drv n channel s)]"
proof -
  let ?c = "played_channel h drv n channel s"
  have k: "?c * 4 < 0x24" "?c * 4 + 1 < 0x24" "?c * 4 + 2 < 0x24" "?c * 4 + 3 < 0x24"
    using assms(2) by simp_all
  note sep = k [THEN window_apart(1) [OF assms(1)]] command_apart(3) [OF assms(1)]
  show ?thesis
    using sep unfolding new_events_def startPlay_channels_trace Let_def by simp
qed

lemma startPlay_channels_pulses:
  assumes "window_ok h" and "Z80_DRV_COM_PLAY h = 1"
    and "promote16 channel \<noteq> SOUND_PCM_CH_AUTO h" and "unat channel < 4"
  shows "pulses h (found h drv s) s (startPlay_channels h drv n sft A L channel loop s)
     (unat channel)"
proof -
  have c: "played_channel h drv n channel s = unat channel"
    using assms(3) by (rule played_channel_explicit)
  then have v: "played_channel h drv n channel s < 4"
    using assms(4) by simp
  note facts = startPlay_channels_status [OF assms(1) v, of sft A L loop]
    startPlay_channels_command [OF assms(1) v, of sft A L loop]
    startPlay_channels_written [OF assms(1) v, of sft A L loop]
  show ?thesis
    using facts unfolding pulses_def c command_bit_one [OF assms(2)]
    by (simp add: play_bit_def)
qed

text \<open>
  C4, as the code has it. For every state, a start request on an explicitly named channel
  of 2ADPCM, 4PCM or 4PCM_ENV leaves the first status byte, and with it the play bit of
  every channel, as it found it: the play bit is for the Z80 to set. It ORs the bit of the
  channel into the command byte, and that is the only write to the command byte. Here
  \<open>Z80_DRV_COM_PLAY\<close> is 1, the channel is one of the driver, and the bytes of the
  register window are different bytes.
\<close>

theorem explicit_start_pulses:
  assumes "window_ok h" and "Z80_DRV_COM_PLAY h = 1"
    and "promote16 c2 \<noteq> SOUND_PCM_CH_AUTO h" and "c2 < 2"
    and "promote16 c4 \<noteq> SOUND_PCM_CH_AUTO h" and "c4 < 4"
  shows
    "pulses h (found h Z80_DRIVER_2ADPCM s) s (SND_startPlay_2ADPCM h A L c2 loop s) (unat c2) \<and>
     pulses h (found h Z80_DRIVER_4PCM s) s (SND_startPlay_4PCM h A L c4 loop s) (unat c4) \<and>
     pulses h (found h Z80_DRIVER_4PCM_ENV s) s (SND_startPlay_4PCM_ENV h A L c4 loop s)
       (unat c4)"
proof -
  have u2: "unat c2 < 4"
    using assms(4) by (simp add: word_less_nat_alt)
  have u4: "unat c4 < 4"
    using assms(6) by (simp add: word_less_nat_alt)
  show ?thesis
    unfolding SND_startPlay_2ADPCM_def SND_startPlay_4PCM_def SND_startPlay_4PCM_ENV_def
    by (intro conjI startPlay_channels_pulses assms u2 u4)
qed

theorem explicit_start_pulses_witness:
  "window_ok cfg0 \<and> Z80_DRV_COM_PLAY cfg0 = 1 \<and>
   promote16 1 \<noteq> SOUND_PCM_CH_AUTO cfg0 \<and> (1 :: u16) < 2 \<and> (1 :: u16) < 4 \<and>
   mem (SND_startPlay_4PCM cfg0 0x12300 0x400 1 0 (st0 Z80_DRIVER_4PCM)) (Z80_DRV_STATUS cfg0)
     = 0x05 \<and>
   mem (SND_startPlay_4PCM cfg0 0x12300 0x400 1 0 (st0 Z80_DRIVER_4PCM)) (Z80_DRV_COMMAND cfg0)
     = 0x06 \<and>
   written (Z80_DRV_COMMAND cfg0)
     (new_events (st0 Z80_DRIVER_4PCM)
        (SND_startPlay_4PCM cfg0 0x12300 0x400 1 0 (st0 Z80_DRIVER_4PCM))) = [0x06]"
proof -
  let ?s = "st0 Z80_DRIVER_4PCM"
  have e: "promote16 1 \<noteq> SOUND_PCM_CH_AUTO cfg0"
    by (simp add: promote16_def)
  have one: "Z80_DRV_COM_PLAY cfg0 = 1" and lt: "(1 :: u16) < 2" "(1 :: u16) < 4"
    by simp_all
  have "pulses cfg0 (found cfg0 Z80_DRIVER_4PCM ?s) ?s
      (SND_startPlay_4PCM cfg0 0x12300 0x400 1 0 ?s) (unat (1 :: u16))"
    using explicit_start_pulses [OF window_ok_cfg0 one e lt(1) e lt(2)] by blast
  then show ?thesis
    using e by (simp add: pulses_def)
qed

text \<open>
  C4, as the specification has it, fails: channel 1 is idle, a start request names it, and
  its play bit is still clear when the function returns.
\<close>

theorem explicit_start_play_bit_counterexample:
  "promote16 1 \<noteq> SOUND_PCM_CH_AUTO cfg0 \<and>
   \<not> play_bit cfg0 (mem (st0 Z80_DRIVER_4PCM)) 1 \<and>
   \<not> play_bit cfg0 (mem (SND_startPlay_4PCM cfg0 0x12300 0x400 1 0 (st0 Z80_DRIVER_4PCM))) 1"
proof -
  have "mem (SND_startPlay_4PCM cfg0 0x12300 0x400 1 0 (st0 Z80_DRIVER_4PCM)) 0xA00102 = 5"
    by (simp add: SND_startPlay_4PCM_def startPlay_channels_mem Let_def)
  then show ?thesis
    by (simp add: play_bit_def busy_cfg0_5 promote16_def)
qed

subsection \<open>What a stop request does to the memory and to the trace\<close>

lemma stopPlay_channels_mem:
  "mem (stopPlay_channels h drv sft null_addr null_size channel s) =
     (let m0 = found h drv s;
          c = unat channel;
          pb = Z80_DRV_PARAMS h + 0x10 + c * 4;
          m4 = m0(pb := to_u8 (drop_bit sft null_addr),
                  pb + 1 := to_u8 (drop_bit (sft + 8) null_addr),
                  pb + 2 := to_u8 (drop_bit sft null_size),
                  pb + 3 := to_u8 (drop_bit (sft + 8) null_size));
          lb = to_u8 (push_bit c (Z80_DRV_STAT_PLAYING h));
          m5 = m4(Z80_DRV_STATUS h := m4 (Z80_DRV_STATUS h) AND NOT lb)
      in m5(Z80_DRV_STATUS h + 1 := m5 (Z80_DRV_STATUS h + 1) AND NOT lb))"
  by (simp add: stopPlay_channels_def found_def Let_def)

lemma stopPlay_channels_trace:
  "trace (stopPlay_channels h drv sft null_addr null_size channel s) = trace s @
     (let m0 = found h drv s;
          c = unat channel;
          pb = Z80_DRV_PARAMS h + 0x10 + c * 4;
          m4 = m0(pb := to_u8 (drop_bit sft null_addr),
                  pb + 1 := to_u8 (drop_bit (sft + 8) null_addr),
                  pb + 2 := to_u8 (drop_bit sft null_size),
                  pb + 3 := to_u8 (drop_bit (sft + 8) null_size));
          lb = to_u8 (push_bit c (Z80_DRV_STAT_PLAYING h));
          m5 = m4(Z80_DRV_STATUS h := m4 (Z80_DRV_STATUS h) AND NOT lb)
      in [LoadDriver drv 1, RequestBus 1,
          BusWrite pb (to_u8 (drop_bit sft null_addr)),
          BusWrite (pb + 1) (to_u8 (drop_bit (sft + 8) null_addr)),
          BusWrite (pb + 2) (to_u8 (drop_bit sft null_size)),
          BusWrite (pb + 3) (to_u8 (drop_bit (sft + 8) null_size)),
          BusRead (Z80_DRV_STATUS h),
          BusWrite (Z80_DRV_STATUS h) (m4 (Z80_DRV_STATUS h) AND NOT lb),
          BusRead (Z80_DRV_STATUS h + 1),
          BusWrite (Z80_DRV_STATUS h + 1) (m5 (Z80_DRV_STATUS h + 1) AND NOT lb),
          ReleaseBus])"
  by (simp add: stopPlay_channels_def found_def Let_def)

text \<open>The single channel driver stops as a driver with channels stops its channel 0.\<close>

lemma stopPlay_PCM_channels:
  "SND_stopPlay_PCM h s =
     stopPlay_channels h Z80_DRIVER_PCM 8 (smp_null h) (sizeof_smp_null h) 0 s"
  by (simp add: SND_stopPlay_PCM_def stopPlay_channels_def Let_def)

lemma busy_cleared:
  "\<not> busy h (v AND NOT (to_u8 (push_bit c (Z80_DRV_STAT_PLAYING h)))) c"
proof -
  have "promote8 (v AND NOT (to_u8 (push_bit c (Z80_DRV_STAT_PLAYING h))))
      AND push_bit c (Z80_DRV_STAT_PLAYING h) = 0"
    unfolding promote8_def to_u8_def
    by (intro bit_word_eqI) (auto simp: bit_simps)
  then show ?thesis
    by (simp add: busy_def)
qed

lemma encodesI:
  assumes "m pb = to_u8 (drop_bit s A)" and "m (pb + 1) = to_u8 (drop_bit (s + 8) A)"
    and "m (pb + 2) = to_u8 (drop_bit s L)" and "m (pb + 3) = to_u8 (drop_bit (s + 8) L)"
  shows "encodes m pb s A L"
  using assms by (simp add: encodes_def to_u8_low_byte)

lemma stopPlay_channels_stopped:
  assumes "window_ok h" and "unat channel < 4"
  shows "stopped h (found h drv s) s (stopPlay_channels h drv sft null_addr null_size channel s)
     (unat channel) sft null_addr null_size"
proof -
  let ?c = "unat channel"
  let ?s' = "stopPlay_channels h drv sft null_addr null_size channel s"
  let ?pb = "Z80_DRV_PARAMS h + 0x10 + ?c * 4"
  have sep: "Z80_DRV_COMMAND h \<noteq> ?pb" "Z80_DRV_COMMAND h \<noteq> ?pb + 1"
    "Z80_DRV_COMMAND h \<noteq> ?pb + 2" "Z80_DRV_COMMAND h \<noteq> ?pb + 3"
    "Z80_DRV_STATUS h \<noteq> ?pb" "Z80_DRV_STATUS h \<noteq> ?pb + 1"
    "Z80_DRV_STATUS h \<noteq> ?pb + 2" "Z80_DRV_STATUS h \<noteq> ?pb + 3"
    "Z80_DRV_STATUS h + 1 \<noteq> ?pb" "Z80_DRV_STATUS h + 1 \<noteq> ?pb + 1"
    "Z80_DRV_STATUS h + 1 \<noteq> ?pb + 2" "Z80_DRV_STATUS h + 1 \<noteq> ?pb + 3"
    "Z80_DRV_COMMAND h \<noteq> Z80_DRV_STATUS h" "Z80_DRV_COMMAND h \<noteq> Z80_DRV_STATUS h + 1"
    using assms unfolding window_ok_def by arith+
  have "\<not> play_bit h (mem ?s') ?c"
    unfolding play_bit_def stopPlay_channels_mem Let_def by (simp add: busy_cleared)
  moreover have "\<not> loop_bit h (mem ?s') ?c"
    unfolding loop_bit_def stopPlay_channels_mem Let_def by (simp add: busy_cleared)
  moreover have "mem ?s' ?pb = to_u8 (drop_bit sft null_addr)"
    "mem ?s' (?pb + 1) = to_u8 (drop_bit (sft + 8) null_addr)"
    "mem ?s' (?pb + 2) = to_u8 (drop_bit sft null_size)"
    "mem ?s' (?pb + 3) = to_u8 (drop_bit (sft + 8) null_size)"
    using sep unfolding stopPlay_channels_mem Let_def by simp_all
  then have "encodes (mem ?s') ?pb sft null_addr null_size"
    by (rule encodesI)
  moreover have "written (Z80_DRV_COMMAND h) (new_events s ?s') = []"
    using sep unfolding new_events_def stopPlay_channels_trace Let_def
    by simp
  moreover have "mem ?s' (Z80_DRV_COMMAND h) = found h drv s (Z80_DRV_COMMAND h)"
    using sep unfolding stopPlay_channels_mem Let_def by simp
  ultimately show ?thesis
    unfolding stopped_def by blast
qed

text \<open>
  C3. For every valid channel of the four PCM drivers and every state, \<open>stopPlay\<close> leaves
  the play bit and the loop bit of the channel clear, leaves in the stop parameters of the
  channel (the four bytes at \<open>Z80_DRV_PARAMS + 0x10 + 4 * channel\<close>) the encoding of the
  address and the size of the null sample of the format, \<open>smp_null\<close> with shift 8 for PCM,
  4PCM and 4PCM_ENV and \<open>smp_null_pcm\<close> with shift 7 for 2ADPCM, and writes nothing to the
  command byte. The bytes of the register window are different bytes.
\<close>

theorem stop_clears_channel:
  assumes "window_ok h" and "c2 < 2" and "c4 < 4"
  shows
    "stopped h (found h Z80_DRIVER_PCM s) s (SND_stopPlay_PCM h s)
       0 8 (smp_null h) (sizeof_smp_null h) \<and>
     stopped h (found h Z80_DRIVER_2ADPCM s) s (SND_stopPlay_2ADPCM h c2 s)
       (unat c2) 7 (smp_null_pcm h) (sizeof_smp_null_pcm h) \<and>
     stopped h (found h Z80_DRIVER_4PCM s) s (SND_stopPlay_4PCM h c4 s)
       (unat c4) 8 (smp_null h) (sizeof_smp_null h) \<and>
     stopped h (found h Z80_DRIVER_4PCM_ENV s) s (SND_stopPlay_4PCM_ENV h c4 s)
       (unat c4) 8 (smp_null h) (sizeof_smp_null h)"
proof -
  have u0: "unat (0 :: u16) < 4"
    by simp
  have u2: "unat c2 < 4"
    using assms(2) by (simp add: word_less_nat_alt)
  have u4: "unat c4 < 4"
    using assms(3) by (simp add: word_less_nat_alt)
  have "stopped h (found h Z80_DRIVER_PCM s) s (SND_stopPlay_PCM h s)
      (unat (0 :: u16)) 8 (smp_null h) (sizeof_smp_null h)"
    unfolding stopPlay_PCM_channels using assms(1) u0 by (rule stopPlay_channels_stopped)
  then have pcm: "stopped h (found h Z80_DRIVER_PCM s) s (SND_stopPlay_PCM h s)
      0 8 (smp_null h) (sizeof_smp_null h)"
    by simp
  show ?thesis
    unfolding SND_stopPlay_2ADPCM_def SND_stopPlay_4PCM_def SND_stopPlay_4PCM_ENV_def
    by (intro conjI pcm stopPlay_channels_stopped assms(1) u2 u4)
qed

theorem stop_clears_channel_witness:
  "window_ok cfg0 \<and> (1 :: u16) < 2 \<and> (2 :: u16) < 4 \<and>
   play_bit cfg0 (mem (st0 Z80_DRIVER_4PCM)) 2 \<and>
   loop_bit cfg0 (mem (st0 Z80_DRIVER_4PCM)) 2 \<and>
   \<not> play_bit cfg0 (mem (SND_stopPlay_4PCM cfg0 2 (st0 Z80_DRIVER_4PCM))) 2 \<and>
   \<not> loop_bit cfg0 (mem (SND_stopPlay_4PCM cfg0 2 (st0 Z80_DRIVER_4PCM))) 2 \<and>
   mem (SND_stopPlay_4PCM cfg0 2 (st0 Z80_DRIVER_4PCM)) 0xA0011C = 0x12 \<and>
   mem (SND_stopPlay_4PCM cfg0 2 (st0 Z80_DRIVER_4PCM)) 0xA0011E = 0x01 \<and>
   mem (SND_stopPlay_4PCM cfg0 2 (st0 Z80_DRIVER_4PCM)) 0xA00100 = 0x04"
proof -
  let ?s = "st0 Z80_DRIVER_4PCM"
  let ?s' = "SND_stopPlay_4PCM cfg0 2 ?s"
  have lt: "(1 :: u16) < 2" "(2 :: u16) < 4"
    by simp_all
  have "stopped cfg0 (found cfg0 Z80_DRIVER_4PCM ?s) ?s ?s'
      (unat (2 :: u16)) 8 (smp_null cfg0) (sizeof_smp_null cfg0)"
    using stop_clears_channel [OF window_ok_cfg0 lt] by blast
  then have st: "stopped cfg0 (mem ?s) ?s ?s' 2 8 0x1200 0x100"
    by simp
  have before: "play_bit cfg0 (mem ?s) 2" "loop_bit cfg0 (mem ?s) 2"
    by (simp_all add: play_bit_def loop_bit_def busy_def promote8_def)
  from st have "\<not> play_bit cfg0 (mem ?s') 2" "\<not> loop_bit cfg0 (mem ?s') 2"
    "mem ?s' 0xA0011C = 0x12" "mem ?s' 0xA0011E = 0x01" "mem ?s' 0xA00100 = 0x04"
    by (simp_all add: stopped_def encodes_def)
  with before lt show ?thesis
    by simp
qed

lemma busy_other:
  assumes "Z80_DRV_STAT_PLAYING h = 1" and "c \<noteq> c'"
  shows "busy h (v AND NOT (to_u8 (push_bit c (Z80_DRV_STAT_PLAYING h)))) c' = busy h v c'"
proof -
  have "promote8 (v AND NOT (to_u8 (push_bit c 1))) AND push_bit c' 1
      = promote8 v AND push_bit c' 1"
    unfolding promote8_def to_u8_def using assms(2)
    by (intro bit_word_eqI) (auto simp: bit_simps dest: bit_imp_le_length)
  then show ?thesis
    by (simp add: busy_def assms(1))
qed

lemma stopPlay_channels_untouched:
  assumes "window_ok h" and "Z80_DRV_STAT_PLAYING h = 1"
    and "unat channel < 4" and "c' < 4" and "c' \<noteq> unat channel"
  shows "untouched h (found h drv s)
     (mem (stopPlay_channels h drv sft null_addr null_size channel s)) c'"
proof -
  let ?c = "unat channel"
  let ?m = "found h drv s"
  let ?m' = "mem (stopPlay_channels h drv sft null_addr null_size channel s)"
  let ?pb = "Z80_DRV_PARAMS h + 0x10 + ?c * 4"
  have other: "?c \<noteq> c'"
    using assms(5) by simp
  have sep: "Z80_DRV_STATUS h \<noteq> ?pb" "Z80_DRV_STATUS h \<noteq> ?pb + 1"
    "Z80_DRV_STATUS h \<noteq> ?pb + 2" "Z80_DRV_STATUS h \<noteq> ?pb + 3"
    "Z80_DRV_STATUS h + 1 \<noteq> ?pb" "Z80_DRV_STATUS h + 1 \<noteq> ?pb + 1"
    "Z80_DRV_STATUS h + 1 \<noteq> ?pb + 2" "Z80_DRV_STATUS h + 1 \<noteq> ?pb + 3"
    using assms(1,3) unfolding window_ok_def by arith+
  have frame: "?m' a = ?m a"
    if "a \<noteq> ?pb" "a \<noteq> ?pb + 1" "a \<noteq> ?pb + 2" "a \<noteq> ?pb + 3"
      "a \<noteq> Z80_DRV_STATUS h" "a \<noteq> Z80_DRV_STATUS h + 1" for a
    using that unfolding stopPlay_channels_mem Let_def by simp
  have "play_bit h ?m' c' = play_bit h ?m c'"
    using sep unfolding play_bit_def stopPlay_channels_mem Let_def
    by (simp add: busy_other [OF assms(2) other])
  moreover have "loop_bit h ?m' c' = loop_bit h ?m c'"
    using sep unfolding loop_bit_def stopPlay_channels_mem Let_def
    by (simp add: busy_other [OF assms(2) other])
  moreover have "?m' (Z80_DRV_PARAMS h + c' * 4 + k) = ?m (Z80_DRV_PARAMS h + c' * 4 + k)"
    if "k < 4" for k
    using assms(1,3,4) that unfolding window_ok_def by (intro frame) arith+
  moreover have "?m' (Z80_DRV_PARAMS h + 0x10 + c' * 4 + k)
      = ?m (Z80_DRV_PARAMS h + 0x10 + c' * 4 + k)" if "k < 4" for k
    using assms(1,3,4,5) that unfolding window_ok_def by (intro frame) arith+
  moreover have "?m' (Z80_DRV_PARAMS h + 0x20 + c') = ?m (Z80_DRV_PARAMS h + 0x20 + c')"
    using assms(1,3,4) unfolding window_ok_def by (intro frame) arith+
  ultimately show ?thesis
    unfolding untouched_def by blast
qed

text \<open>
  C6. For every channel \<open>c\<close> of a four channel driver and every state, \<open>stopPlay(c)\<close>
  leaves the play bit, the loop bit and the parameter bytes (those of a start request, those
  of a stop request, and the volume) of every other channel as it found them. Here
  \<open>Z80_DRV_STAT_PLAYING\<close> is 1, so that the channels have a status bit each, and the bytes
  of the register window are different bytes.
\<close>

theorem stop_leaves_other_channels:
  assumes "window_ok h" and "Z80_DRV_STAT_PLAYING h = 1"
    and "c < 4" and "c' < 4" and "c' \<noteq> c"
  shows
    "untouched h (found h Z80_DRIVER_4PCM s) (mem (SND_stopPlay_4PCM h c s)) (unat c') \<and>
     untouched h (found h Z80_DRIVER_4PCM_ENV s) (mem (SND_stopPlay_4PCM_ENV h c s)) (unat c')"
proof -
  have u: "unat c < 4" "unat c' < 4"
    using assms(3,4) by (simp_all add: word_less_nat_alt)
  have ne: "unat c' \<noteq> unat c"
    using assms(5) by (simp add: word_unat_eq_iff)
  show ?thesis
    unfolding SND_stopPlay_4PCM_def SND_stopPlay_4PCM_ENV_def
    by (intro conjI stopPlay_channels_untouched assms(1,2) u ne)
qed

theorem stop_leaves_other_channels_witness:
  "window_ok cfg0 \<and> Z80_DRV_STAT_PLAYING cfg0 = 1 \<and>
   (1 :: u16) < 4 \<and> (2 :: u16) < 4 \<and> (2 :: u16) \<noteq> 1 \<and>
   play_bit cfg0 (mem (st0 Z80_DRIVER_4PCM)) 2 \<and>
   loop_bit cfg0 (mem (st0 Z80_DRIVER_4PCM)) 2 \<and>
   play_bit cfg0 (mem (SND_stopPlay_4PCM cfg0 1 (st0 Z80_DRIVER_4PCM))) 2 \<and>
   loop_bit cfg0 (mem (SND_stopPlay_4PCM cfg0 1 (st0 Z80_DRIVER_4PCM))) 2"
proof -
  let ?s = "st0 Z80_DRIVER_4PCM"
  have h: "Z80_DRV_STAT_PLAYING cfg0 = 1" "(1 :: u16) < 4" "(2 :: u16) < 4" "(2 :: u16) \<noteq> 1"
    by simp_all
  have "untouched cfg0 (found cfg0 Z80_DRIVER_4PCM ?s) (mem (SND_stopPlay_4PCM cfg0 1 ?s))
      (unat (2 :: u16))"
    using stop_leaves_other_channels [OF window_ok_cfg0 h] by blast
  then have "play_bit cfg0 (mem (SND_stopPlay_4PCM cfg0 1 ?s)) 2 = play_bit cfg0 (mem ?s) 2"
    "loop_bit cfg0 (mem (SND_stopPlay_4PCM cfg0 1 ?s)) 2 = loop_bit cfg0 (mem ?s) 2"
    by (simp_all add: untouched_def)
  moreover have "play_bit cfg0 (mem ?s) 2" "loop_bit cfg0 (mem ?s) 2"
    by (simp_all add: play_bit_def loop_bit_def busy_def promote8_def)
  ultimately show ?thesis
    using h by simp
qed

subsection \<open>The order of the steps\<close>

lemma protocol_channels:
  "follows_protocol drv (new_events s (snd (isPlaying_channels h drv mask' s)))"
  "follows_protocol drv (new_events s (startPlay_channels h drv n sft A L channel loop s))"
  "follows_protocol drv (new_events s (stopPlay_channels h drv sft null_addr null_size channel s))"
  by (simp_all add: new_events_def isPlaying_channels_def startPlay_channels_trace
      stopPlay_channels_trace Let_def case_prod_beta)

lemma protocol_PCM:
  "follows_protocol Z80_DRIVER_PCM (new_events s (snd (SND_isPlaying_PCM h s)))"
  "follows_protocol Z80_DRIVER_PCM (new_events s (SND_startPlay_PCM h A L rate pan loop s))"
  "follows_protocol Z80_DRIVER_PCM (new_events s (SND_stopPlay_PCM h s))"
  by (simp_all add: new_events_def SND_isPlaying_PCM_def startPlay_PCM_trace
      stopPlay_PCM_channels stopPlay_channels_trace Let_def case_prod_beta)

lemma protocol_volume:
  "follows_protocol Z80_DRIVER_4PCM_ENV (new_events s (SND_setVolume_4PCM_ENV h channel volume s))"
  "follows_protocol Z80_DRIVER_4PCM_ENV (new_events s (snd (SND_getVolume_4PCM_ENV h channel s)))"
  by (simp_all add: new_events_def SND_setVolume_4PCM_ENV_def SND_getVolume_4PCM_ENV_def
      Let_def case_prod_beta)

lemma protocol_MVS:
  "follows_protocol Z80_DRIVER_MVS (new_events s (snd (SND_isPlaying_MVS h s)))"
  "follows_protocol Z80_DRIVER_MVS (new_events s (SND_startPlay_MVS h song loop s))"
  "follows_protocol Z80_DRIVER_MVS (new_events s (SND_stopPlay_MVS h s))"
  by (simp_all add: new_events_def SND_isPlaying_MVS_def SND_startPlay_MVS_def
      SND_stopPlay_MVS_def Let_def case_prod_beta)

lemma startPlay_TFM_trace:
  "new_events s (SND_startPlay_TFM h song s) =
     [RequestBus 1,
      BusWrite 0xA01FFC (to_u8 song),
      BusWrite 0xA01FFD (to_u8 (drop_bit 8 song)),
      BusWrite 0xA01FFE (to_u8 (drop_bit 16 song)),
      BusWrite 0xA01FFC (to_u8 (drop_bit 24 song)),
      ReleaseBus, LoadDriver Z80_DRIVER_TFM 0, StartReset, EndReset]"
  by (simp add: new_events_def SND_startPlay_TFM_def Let_def)


text \<open>
  C5, as the code has it. Every function of sound.c but \<open>SND_startPlay_TFM\<close> does its
  steps in one order, on its one path: it loads its driver, requests the bus, reads and
  writes registers, releases the bus, and does nothing after. \<open>SND_startPlay_TFM\<close>
  requests the bus first, writes the song address, releases the bus, and only then loads
  its driver and resets the Z80.
\<close>

theorem operations_follow_protocol:
  "follows_protocol Z80_DRIVER_PCM (new_events s (snd (SND_isPlaying_PCM h s))) \<and>
   follows_protocol Z80_DRIVER_PCM (new_events s (SND_startPlay_PCM h A L rate pan loop s)) \<and>
   follows_protocol Z80_DRIVER_PCM (new_events s (SND_stopPlay_PCM h s)) \<and>
   follows_protocol Z80_DRIVER_2ADPCM (new_events s (snd (SND_isPlaying_2ADPCM h mask' s))) \<and>
   follows_protocol Z80_DRIVER_2ADPCM (new_events s (SND_startPlay_2ADPCM h A L channel loop s)) \<and>
   follows_protocol Z80_DRIVER_2ADPCM (new_events s (SND_stopPlay_2ADPCM h channel s)) \<and>
   follows_protocol Z80_DRIVER_4PCM (new_events s (snd (SND_isPlaying_4PCM h mask' s))) \<and>
   follows_protocol Z80_DRIVER_4PCM (new_events s (SND_startPlay_4PCM h A L channel loop s)) \<and>
   follows_protocol Z80_DRIVER_4PCM (new_events s (SND_stopPlay_4PCM h channel s)) \<and>
   follows_protocol Z80_DRIVER_4PCM_ENV (new_events s (snd (SND_isPlaying_4PCM_ENV h mask' s))) \<and>
   follows_protocol Z80_DRIVER_4PCM_ENV
     (new_events s (SND_startPlay_4PCM_ENV h A L channel loop s)) \<and>
   follows_protocol Z80_DRIVER_4PCM_ENV (new_events s (SND_stopPlay_4PCM_ENV h channel s)) \<and>
   follows_protocol Z80_DRIVER_4PCM_ENV
     (new_events s (SND_setVolume_4PCM_ENV h channel volume s)) \<and>
   follows_protocol Z80_DRIVER_4PCM_ENV (new_events s (snd (SND_getVolume_4PCM_ENV h channel s))) \<and>
   follows_protocol Z80_DRIVER_MVS (new_events s (snd (SND_isPlaying_MVS h s))) \<and>
   follows_protocol Z80_DRIVER_MVS (new_events s (SND_startPlay_MVS h A loop s)) \<and>
   follows_protocol Z80_DRIVER_MVS (new_events s (SND_stopPlay_MVS h s)) \<and>
   new_events s (SND_startPlay_TFM h A s) =
     [RequestBus 1,
      BusWrite 0xA01FFC (to_u8 A),
      BusWrite 0xA01FFD (to_u8 (drop_bit 8 A)),
      BusWrite 0xA01FFE (to_u8 (drop_bit 16 A)),
      BusWrite 0xA01FFC (to_u8 (drop_bit 24 A)),
      ReleaseBus, LoadDriver Z80_DRIVER_TFM 0, StartReset, EndReset]"
  unfolding SND_isPlaying_2ADPCM_def SND_startPlay_2ADPCM_def SND_stopPlay_2ADPCM_def
    SND_isPlaying_4PCM_def SND_startPlay_4PCM_def SND_stopPlay_4PCM_def
    SND_isPlaying_4PCM_ENV_def SND_startPlay_4PCM_ENV_def SND_stopPlay_4PCM_ENV_def
  by (intro conjI protocol_PCM protocol_channels protocol_volume protocol_MVS
      startPlay_TFM_trace)

text \<open>
  C5, as the specification has it, fails: \<open>SND_startPlay_TFM\<close> starts with the bus and
  loads its driver after it has released the bus.
\<close>

theorem startPlay_TFM_protocol_counterexample:
  "\<not> follows_protocol Z80_DRIVER_TFM
       (new_events (st0 Z80_DRIVER_TFM) (SND_startPlay_TFM cfg0 0x12345678 (st0 Z80_DRIVER_TFM))) \<and>
   take 1 (new_events (st0 Z80_DRIVER_TFM)
       (SND_startPlay_TFM cfg0 0x12345678 (st0 Z80_DRIVER_TFM))) = [RequestBus 1] \<and>
   drop 5 (new_events (st0 Z80_DRIVER_TFM)
       (SND_startPlay_TFM cfg0 0x12345678 (st0 Z80_DRIVER_TFM)))
     = [ReleaseBus, LoadDriver Z80_DRIVER_TFM 0, StartReset, EndReset]"
  by (simp add: startPlay_TFM_trace)

lemma to_u8_high_bytes:
  "to_u8 (drop_bit 8 (A AND NOT 0xFF)) = to_u8 (drop_bit 8 A)"
  "to_u8 (drop_bit 16 (A AND NOT 0xFF)) = to_u8 (drop_bit 16 A)"
  "to_u8 (drop_bit 24 (A AND NOT 0xFF)) = to_u8 (drop_bit 24 A)"
proof -
  have low: "(0xFF :: u32) = mask 8"
    by (simp add: mask_eq_exp_minus_1)
  show "to_u8 (drop_bit 8 (A AND NOT 0xFF)) = to_u8 (drop_bit 8 A)"
    "to_u8 (drop_bit 16 (A AND NOT 0xFF)) = to_u8 (drop_bit 16 A)"
    "to_u8 (drop_bit 24 (A AND NOT 0xFF)) = to_u8 (drop_bit 24 A)"
    unfolding to_u8_def low by (intro bit_word_eqI; auto simp: bit_simps)+
qed

lemma startPlay_TFM_mem:
  "mem (SND_startPlay_TFM h A s) =
     mem (Z80_loadDriver h Z80_DRIVER_TFM 0
       (s\<lparr>mem := (mem s)(0xA01FFC := to_u8 (drop_bit 24 A),
                           0xA01FFD := to_u8 (drop_bit 8 A),
                           0xA01FFE := to_u8 (drop_bit 16 A))\<rparr>))"
proof -
  have "(mem s)(0xA01FFC := to_u8 A, 0xA01FFD := to_u8 (drop_bit 8 A),
      0xA01FFE := to_u8 (drop_bit 16 A), 0xA01FFC := to_u8 (drop_bit 24 A))
    = (mem s)(0xA01FFC := to_u8 (drop_bit 24 A), 0xA01FFD := to_u8 (drop_bit 8 A),
      0xA01FFE := to_u8 (drop_bit 16 A))"
    by (rule ext) simp
  then show ?thesis
    by (simp add: SND_startPlay_TFM_def Let_def Z80_loadDriver_def)
qed

text \<open>
  C9. For every song address \<open>A\<close>, \<open>SND_startPlay_TFM\<close> makes four writes: bits 0 to 7 of
  \<open>A\<close> to offset 0 of the block at \<open>0xA01FFC\<close>, bits 8 to 15 to offset 1, bits 16 to 23 to
  offset 2, and bits 24 to 31 to offset 0 again. Offset 3 is never written, offset 0 ends
  with bits 24 to 31, and the memory after the call is the same whatever the low 8 bits of
  \<open>A\<close> are: they are stored nowhere.
\<close>

theorem startPlay_TFM_drops_low_byte:
  "new_events s (SND_startPlay_TFM h A s) =
     [RequestBus 1,
      BusWrite (0xA01FFC + 0) (ucast (A AND 0xFF)),
      BusWrite (0xA01FFC + 1) (ucast (drop_bit 8 A AND 0xFF)),
      BusWrite (0xA01FFC + 2) (ucast (drop_bit 16 A AND 0xFF)),
      BusWrite (0xA01FFC + 0) (ucast (drop_bit 24 A AND 0xFF)),
      ReleaseBus, LoadDriver Z80_DRIVER_TFM 0, StartReset, EndReset] \<and>
   written (0xA01FFC + 3) (new_events s (SND_startPlay_TFM h A s)) = [] \<and>
   written (0xA01FFC + 0) (new_events s (SND_startPlay_TFM h A s))
     = [ucast (A AND 0xFF), ucast (drop_bit 24 A AND 0xFF)] \<and>
   mem (SND_startPlay_TFM h A s) =
     mem (Z80_loadDriver h Z80_DRIVER_TFM 0
       (s\<lparr>mem := (mem s)(0xA01FFC + 0 := ucast (drop_bit 24 A AND 0xFF),
                           0xA01FFC + 1 := ucast (drop_bit 8 A AND 0xFF),
                           0xA01FFC + 2 := ucast (drop_bit 16 A AND 0xFF))\<rparr>)) \<and>
   mem (SND_startPlay_TFM h A s) = mem (SND_startPlay_TFM h (A AND NOT 0xFF) s)"
proof -
  have "mem (SND_startPlay_TFM h A s) = mem (SND_startPlay_TFM h (A AND NOT 0xFF) s)"
    by (simp only: startPlay_TFM_mem to_u8_high_bytes)
  then show ?thesis
    by (simp add: startPlay_TFM_trace startPlay_TFM_mem to_u8_low_byte [symmetric])
qed

theorem startPlay_TFM_drops_low_byte_witness:
  "new_events (st0 Z80_DRIVER_TFM) (SND_startPlay_TFM cfg0 0xAABBCCDD (st0 Z80_DRIVER_TFM)) =
     [RequestBus 1,
      BusWrite 0xA01FFC 0xDD, BusWrite 0xA01FFD 0xCC, BusWrite 0xA01FFE 0xBB,
      BusWrite 0xA01FFC 0xAA,
      ReleaseBus, LoadDriver Z80_DRIVER_TFM 0, StartReset, EndReset] \<and>
   mem (SND_startPlay_TFM cfg0 0xAABBCCDD (st0 Z80_DRIVER_TFM)) 0xA01FFC = 0xAA \<and>
   mem (SND_startPlay_TFM cfg0 0xAABBCCDD (st0 Z80_DRIVER_TFM)) 0xA01FFD = 0xCC \<and>
   mem (SND_startPlay_TFM cfg0 0xAABBCCDD (st0 Z80_DRIVER_TFM)) 0xA01FFE = 0xBB \<and>
   mem (SND_startPlay_TFM cfg0 0xAABBCCDD (st0 Z80_DRIVER_TFM)) 0xA01FFF = 0x00 \<and>
   mem (SND_startPlay_TFM cfg0 0xAABBCCDD (st0 Z80_DRIVER_TFM))
     = mem (SND_startPlay_TFM cfg0 0xAABBCC00 (st0 Z80_DRIVER_TFM))"
proof -
  let ?s = "st0 Z80_DRIVER_TFM"
  note t = startPlay_TFM_drops_low_byte [of ?s cfg0 "0xAABBCCDD"]
  have low: "(0xAABBCCDD :: u32) AND NOT 0xFF = 0xAABBCC00"
    by simp
  have ev: "new_events ?s (SND_startPlay_TFM cfg0 0xAABBCCDD ?s) =
     [RequestBus 1,
      BusWrite 0xA01FFC 0xDD, BusWrite 0xA01FFD 0xCC, BusWrite 0xA01FFE 0xBB,
      BusWrite 0xA01FFC 0xAA,
      ReleaseBus, LoadDriver Z80_DRIVER_TFM 0, StartReset, EndReset]"
    using t [THEN conjunct1] by simp
  have m: "mem (SND_startPlay_TFM cfg0 0xAABBCCDD ?s) =
      (mem ?s)(0xA01FFC := 0xAA, 0xA01FFD := 0xCC, 0xA01FFE := 0xBB)"
    using t [THEN conjunct2, THEN conjunct2, THEN conjunct2, THEN conjunct1] by simp
  have same: "mem (SND_startPlay_TFM cfg0 0xAABBCCDD ?s)
      = mem (SND_startPlay_TFM cfg0 0xAABBCC00 ?s)"
    using t [THEN conjunct2, THEN conjunct2, THEN conjunct2, THEN conjunct2]
    unfolding low .
  have bytes: "mem (SND_startPlay_TFM cfg0 0xAABBCCDD ?s) 0xA01FFC = 0xAA"
    "mem (SND_startPlay_TFM cfg0 0xAABBCCDD ?s) 0xA01FFD = 0xCC"
    "mem (SND_startPlay_TFM cfg0 0xAABBCCDD ?s) 0xA01FFE = 0xBB"
    "mem (SND_startPlay_TFM cfg0 0xAABBCCDD ?s) 0xA01FFF = 0x00"
    unfolding m by simp_all
  show ?thesis
    by (intro conjI ev bytes same)
qed

section \<open>Properties of the sample preparation\<close>


lemma resample_None:
  "resample sys audioIn bits rate mono' signed' bigEndian' = None \<longleftrightarrow>
     \<not> isConversionSupported sys
         \<lparr>enc = (if signed' then PCM_SIGNED else PCM_UNSIGNED),
          sampleRate = (if rate \<le> 0 then sampleRate (format audioIn) else rate),
          sampleSizeInBits = bits,
          channels = (if mono' then 1 else channels (format audioIn)),
          frameSize = jint ((jint (bits + 7) sdiv 8)
                        * (if mono' then 1 else channels (format audioIn))),
          frameRate = (if rate \<le> 0 then sampleRate (format audioIn) else rate),
          bigEndian = bigEndian'\<rparr>
         (format audioIn)"
  by (simp add: resample_def Let_def)




lemma close_samples [simp]: "\<not> close_throws wav0" "close_throws wav_stuck"
  by (simp_all add: wav0_def wav_stuck_def)



end
